theory Spec2Isabelle
  imports Main "HOL-Library.Word" "HOL-Library.AList"
begin

section \<open>Python values, exceptions and dictionaries\<close>

text \<open>
  The argument mapping of a tool call is an untyped Python dictionary
  (\<^verbatim>\<open>args: Dict | None\<close>).  The tool schemas of \<^verbatim>\<open>handle_list_tools\<close> only
  mention strings and integers, and \<^verbatim>\<open>args.get(k)\<close> yields \<^verbatim>\<open>None\<close> for an
  absent key, so a value is \<^verbatim>\<open>None\<close>, a string or an integer.
\<close>

datatype pyval = PNone | PStr string | PInt int

type_synonym byte = "8 word"

text \<open>
  The exception classes that \<^verbatim>\<open>server.py\<close> names or that its statements raise:
  \<^verbatim>\<open>ClientError\<close> (imported from botocore, with the error code of the service),
  \<^verbatim>\<open>RuntimeError\<close> (caught by four functions), \<^verbatim>\<open>ValueError\<close> (raised by
  \<^verbatim>\<open>load_config\<close> and \<^verbatim>\<open>handle_call_tool\<close>), \<^verbatim>\<open>KeyError\<close> (a dictionary
  subscript on an absent key), \<^verbatim>\<open>AttributeError\<close> (\<^verbatim>\<open>args.get\<close> when \<^verbatim>\<open>args\<close> is
  \<^verbatim>\<open>None\<close>), \<^verbatim>\<open>TypeError\<close> (\<^verbatim>\<open>open(None, ...)\<close>) and \<^verbatim>\<open>OSError\<close> (a file that
  cannot be opened or written).  None of these classes derives from another one
  of them, so an \<^verbatim>\<open>except C\<close> clause catches exactly the exceptions built by
  the constructor \<open>C\<close>.
\<close>

datatype py_exc =
    ClientError string
  | RuntimeError
  | ValueError string
  | KeyError string
  | AttributeError
  | TypeError
  | OSError

fun is_ClientError :: "py_exc \<Rightarrow> bool" where
  "is_ClientError (ClientError code) = True"
| "is_ClientError e = False"

fun is_RuntimeError :: "py_exc \<Rightarrow> bool" where
  "is_RuntimeError RuntimeError = True"
| "is_RuntimeError e = False"

text \<open>\<^verbatim>\<open>str(n)\<close> for an integer, as an f-string renders it.\<close>

definition digit_char :: "nat \<Rightarrow> char" where
  "digit_char d = ''0123456789'' ! d"

fun str_nat :: "nat \<Rightarrow> string" where
  "str_nat n = (if n < 10 then [digit_char n] else str_nat (n div 10) @ [digit_char (n mod 10)])"

declare str_nat.simps [simp del]

definition str_int :: "int \<Rightarrow> string" where
  "str_int i = (if i < 0 then CHR ''-'' # str_nat (nat (- i)) else str_nat (nat i))"

text \<open>The text an f-string puts in place of \<^verbatim>\<open>{v}\<close>.\<close>

fun py_str :: "pyval \<Rightarrow> string" where
  "py_str PNone = ''None''"
| "py_str (PStr s) = s"
| "py_str (PInt i) = str_int i"

text \<open>
  \<^verbatim>\<open>args.get(key)\<close> and \<^verbatim>\<open>args.get(key, default)\<close> on a dictionary; \<^verbatim>\<open>args\<close>
  itself may be \<^verbatim>\<open>None\<close>, and then the attribute access raises.
\<close>

type_synonym pydict = "string \<rightharpoonup> pyval"

definition dict_get :: "pydict \<Rightarrow> string \<Rightarrow> pyval" where
  "dict_get m k = (case m k of None \<Rightarrow> PNone | Some v \<Rightarrow> v)"

definition dict_get_default :: "pydict \<Rightarrow> string \<Rightarrow> pyval \<Rightarrow> pyval" where
  "dict_get_default m k d = (case m k of None \<Rightarrow> d | Some v \<Rightarrow> v)"

text \<open>\<^verbatim>\<open>d[key]\<close> on a response dictionary whose field may be absent.\<close>

definition subscript :: "'a option \<Rightarrow> string \<Rightarrow> py_exc + 'a" where
  "subscript field key = (case field of None \<Rightarrow> Inl (KeyError key) | Some v \<Rightarrow> Inr v)"

text \<open>A list comprehension whose element expression may raise: the first exception ends it.\<close>

fun comprehension :: "('a \<Rightarrow> py_exc + 'b) \<Rightarrow> 'a list \<Rightarrow> py_exc + 'b list" where
  "comprehension f [] = Inr []"
| "comprehension f (x # xs) =
     (case f x of
        Inl e \<Rightarrow> Inl e
      | Inr y \<Rightarrow> (case comprehension f xs of Inl e \<Rightarrow> Inl e | Inr ys \<Rightarrow> Inr (y # ys)))"

section \<open>The storage client and the local file system\<close>

text \<open>
  Keyword arguments of a client call, a Python dictionary in insertion order;
  \<^verbatim>\<open>kwargs[k] = v\<close> is \<open>AList.update k v\<close>.
\<close>

type_synonym kwargs = "(string \<times> pyval) list"

text \<open>The responses of the client, with the fields the handlers read.\<close>

record bucket_entry =
  Name :: "string option"

record list_buckets_output =
  Buckets :: "bucket_entry list option"

record object_entry =
  Key :: "pyval option"
  VersionId :: "pyval option"

record list_objects_output =
  Contents :: "object_entry list option"

record get_object_output =
  Body :: "byte list option"

record head_object_output =
  ContentType :: "pyval option"
  ContentLength :: "pyval option"
  LastModified :: "pyval option"

text \<open>
  The global \<^verbatim>\<open>client\<close> made by \<^verbatim>\<open>boto3.client\<close> is outside the repository: it
  is a parameter here, one operation per method the handlers call.  Each takes
  the state \<open>'s\<close> of the storage service and returns a response or the exception
  it raises, and the new state.
\<close>

record 's s3_client =
  list_buckets :: "'s \<Rightarrow> (py_exc + list_buckets_output) \<times> 's"
  head_bucket :: "kwargs \<Rightarrow> 's \<Rightarrow> (py_exc + unit) \<times> 's"
  create_bucket :: "kwargs \<Rightarrow> 's \<Rightarrow> (py_exc + unit) \<times> 's"
  delete_bucket :: "kwargs \<Rightarrow> 's \<Rightarrow> (py_exc + unit) \<times> 's"
  list_objects_v2 :: "kwargs \<Rightarrow> 's \<Rightarrow> (py_exc + list_objects_output) \<times> 's"
  get_object :: "kwargs \<Rightarrow> 's \<Rightarrow> (py_exc + get_object_output) \<times> 's"
  put_object :: "kwargs \<Rightarrow> byte list \<Rightarrow> 's \<Rightarrow> (py_exc + unit) \<times> 's"
  delete_object :: "kwargs \<Rightarrow> 's \<Rightarrow> (py_exc + unit) \<times> 's"
  head_object :: "kwargs \<Rightarrow> 's \<Rightarrow> (py_exc + head_object_output) \<times> 's"

text \<open>
  The local files that \<^verbatim>\<open>open\<close> reaches, keyed by the value given as path, with
  the paths that can be opened for writing and those a write succeeds on.
\<close>

record filesystem =
  files :: "pyval \<rightharpoonup> byte list"
  can_open_wb :: "pyval \<Rightarrow> bool"
  can_write :: "pyval \<Rightarrow> bool"

text \<open>\<^verbatim>\<open>open(path, 'rb')\<close> and reading the whole file.\<close>

definition py_open_rb :: "filesystem \<Rightarrow> pyval \<Rightarrow> py_exc + byte list" where
  "py_open_rb f path =
     (if path = PNone then Inl TypeError
      else (case files f path of None \<Rightarrow> Inl OSError | Some content \<Rightarrow> Inr content))"

text \<open>\<^verbatim>\<open>open(path, 'wb')\<close>: the file is created or truncated.\<close>

definition py_open_wb :: "filesystem \<Rightarrow> pyval \<Rightarrow> py_exc + filesystem" where
  "py_open_wb f path =
     (if path = PNone then Inl TypeError
      else if can_open_wb f path then Inr (f\<lparr>files := (files f)(path \<mapsto> [])\<rparr>)
      else Inl OSError)"

text \<open>\<^verbatim>\<open>f.write(data)\<close> on the file just opened, followed by its closing.\<close>

definition py_write :: "filesystem \<Rightarrow> pyval \<Rightarrow> byte list \<Rightarrow> py_exc + filesystem" where
  "py_write f path content =
     (if can_write f path then Inr (f\<lparr>files := (files f)(path \<mapsto> content)\<rparr>)
      else Inl OSError)"

text \<open>
  What a handler runs in: the state of the storage service, the local files, and
  the record of the client calls made so far (method, keyword arguments, and the
  body for \<^verbatim>\<open>put_object\<close>).
\<close>

datatype s3_call = S3Call string kwargs "byte list option"

record 's world =
  backend :: 's
  fs :: filesystem
  calls :: "s3_call list"

type_synonym ('s, 'a) outcome = "(py_exc + 'a) \<times> 's world"

definition invoke :: "s3_call \<Rightarrow> ('s \<Rightarrow> (py_exc + 'r) \<times> 's) \<Rightarrow> 's world \<Rightarrow> ('s, 'r) outcome" where
  "invoke call operation w =
     (case operation (backend w) of
        (r, b) \<Rightarrow> (r, w\<lparr>backend := b, calls := calls w @ [call]\<rparr>))"

text \<open>Sequencing: an exception skips the rest of the block.\<close>

definition then_do :: "('s, 'a) outcome \<Rightarrow> ('a \<Rightarrow> 's world \<Rightarrow> ('s, 'b) outcome) \<Rightarrow> ('s, 'b) outcome" where
  "then_do r f = (case r of (Inl e, w) \<Rightarrow> (Inl e, w) | (Inr v, w) \<Rightarrow> f v w)"

text \<open>
  \<^verbatim>\<open>try: body except C: return fallback\<close>: an exception of class \<open>C\<close> becomes the
  fallback result, any other exception goes on to the caller.
\<close>

definition try_except :: "(py_exc \<Rightarrow> bool) \<Rightarrow> ('s, 'a) outcome \<Rightarrow> 'a \<Rightarrow> ('s, 'a) outcome" where
  "try_except catches body fallback =
     (case body of
        (Inl e, w) \<Rightarrow> if catches e then (Inr fallback, w) else (Inl e, w)
      | (Inr v, w) \<Rightarrow> (Inr v, w))"

section \<open>Tool handlers\<close>

datatype TextContent = TextContent string string

type_synonym args = "pydict option"

text \<open>\<^verbatim>\<open>ExistsBucketHandler.handle\<close>: the argument is read before the \<^verbatim>\<open>try\<close>.\<close>

definition ExistsBucketHandler_handle ::
  "'s s3_client \<Rightarrow> string \<Rightarrow> args \<Rightarrow> 's world \<Rightarrow> ('s, TextContent list) outcome" where
  "ExistsBucketHandler_handle c name args w =
     (case args of
        None \<Rightarrow> (Inl AttributeError, w)
      | Some m \<Rightarrow>
          (let bucket_name = dict_get m ''bucket_name'' in
           try_except is_ClientError
             (then_do
                (invoke (S3Call ''head_bucket'' [(''Bucket'', bucket_name)] None)
                   (head_bucket c [(''Bucket'', bucket_name)]) w)
                (\<lambda>r w1. (Inr [TextContent ''text''
                             (''Bucket '' @ py_str bucket_name @ '' exists'')], w1)))
             [TextContent ''text'' (''Bucket '' @ py_str bucket_name @ '' not exists'')]))"

text \<open>\<^verbatim>\<open>ListBucketsHandler.handle\<close>: the arguments are not read.\<close>

definition ListBucketsHandler_handle ::
  "'s s3_client \<Rightarrow> string \<Rightarrow> args \<Rightarrow> 's world \<Rightarrow> ('s, TextContent list) outcome" where
  "ListBucketsHandler_handle c name args w =
     try_except is_RuntimeError
       (then_do (invoke (S3Call ''list_buckets'' [] None) (list_buckets c) w)
          (\<lambda>buckets w1.
             (case subscript (Buckets buckets) ''Buckets'' of
                Inl e \<Rightarrow> (Inl e, w1)
              | Inr bs \<Rightarrow>
                  (comprehension
                     (\<lambda>bucket. case subscript (Name bucket) ''Name'' of
                        Inl e \<Rightarrow> Inl e
                      | Inr n \<Rightarrow> Inr (TextContent ''text'' (''Bucket: '' @ n)))
                     bs, w1))))
       [TextContent ''text'' ''Failed to list buckets'']"

definition CreateBucketHandler_handle ::
  "'s s3_client \<Rightarrow> string \<Rightarrow> args \<Rightarrow> 's world \<Rightarrow> ('s, TextContent list) outcome" where
  "CreateBucketHandler_handle c name args w =
     try_except is_RuntimeError
       (case args of
          None \<Rightarrow> (Inl AttributeError, w)
        | Some m \<Rightarrow>
            (let bucket_name = dict_get m ''bucket_name'' in
             then_do
               (invoke (S3Call ''create_bucket'' [(''Bucket'', bucket_name)] None)
                  (create_bucket c [(''Bucket'', bucket_name)]) w)
               (\<lambda>r w1. (Inr [TextContent ''text''
                            (''Bucket '' @ py_str bucket_name @ '' created successfully'')], w1))))
       [TextContent ''text'' ''Failed to create bucket'']"

definition DeleteBucketHandler_handle ::
  "'s s3_client \<Rightarrow> string \<Rightarrow> args \<Rightarrow> 's world \<Rightarrow> ('s, TextContent list) outcome" where
  "DeleteBucketHandler_handle c name args w =
     try_except is_RuntimeError
       (case args of
          None \<Rightarrow> (Inl AttributeError, w)
        | Some m \<Rightarrow>
            (let bucket_name = dict_get m ''bucket_name'' in
             then_do
               (invoke (S3Call ''delete_bucket'' [(''Bucket'', bucket_name)] None)
                  (delete_bucket c [(''Bucket'', bucket_name)]) w)
               (\<lambda>r w1. (Inr [TextContent ''text''
                            (''Bucket '' @ py_str bucket_name @ '' deleted successfully'')], w1))))
       [TextContent ''text'' ''Failed to delete bucket'']"

text \<open>\<^verbatim>\<open>obj.get(key, default)\<close> inside an f-string.\<close>

definition field_str :: "pyval option \<Rightarrow> string \<Rightarrow> string" where
  "field_str field d = (case field of None \<Rightarrow> d | Some v \<Rightarrow> py_str v)"

definition ListObjectsHandler_handle ::
  "'s s3_client \<Rightarrow> string \<Rightarrow> args \<Rightarrow> 's world \<Rightarrow> ('s, TextContent list) outcome" where
  "ListObjectsHandler_handle c name args w =
     try_except is_ClientError
       (case args of
          None \<Rightarrow> (Inl AttributeError, w)
        | Some m \<Rightarrow>
            (let bucket_name = dict_get m ''bucket_name'';
                 prefix = dict_get m ''prefix'';
                 delimiter = dict_get m ''delimiter'';
                 max_keys = dict_get_default m ''max_keys'' (PInt 1000);
                 continuation_token = dict_get m ''continuation_token'';
                 start_after = dict_get m ''start_after'';
                 kwargs = [(''Bucket'', bucket_name)];
                 kwargs = (if prefix \<noteq> PNone
                           then AList.update ''Prefix'' prefix kwargs else kwargs);
                 kwargs = (if delimiter \<noteq> PNone
                           then AList.update ''Delimiter'' delimiter kwargs else kwargs);
                 kwargs = (if max_keys \<noteq> PNone
                           then AList.update ''MaxKeys'' max_keys kwargs else kwargs);
                 kwargs = (if continuation_token \<noteq> PNone
                           then AList.update ''ContinuationToken'' continuation_token kwargs
                           else kwargs);
                 kwargs = (if start_after \<noteq> PNone
                           then AList.update ''StartAfter'' start_after kwargs else kwargs)
             in then_do
                  (invoke (S3Call ''list_objects_v2'' kwargs None) (list_objects_v2 c kwargs) w)
                  (\<lambda>response w1.
                     (case subscript (Contents response) ''Contents'' of
                        Inl e \<Rightarrow> (Inl e, w1)
                      | Inr objs \<Rightarrow>
                          (Inr (map (\<lambda>obj. TextContent ''text''
                                  (''Object[key='' @ field_str (Key obj) ''null''
                                   @ '', version_id='' @ field_str (VersionId obj) ''null''
                                   @ '']'')) objs), w1)))))
       [TextContent ''text'' ''Failed to list objects'']"

text \<open>
  \<^verbatim>\<open>GetObjectHandler.handle\<close>: the object is fetched, then the local file is
  opened, the body read and written.
\<close>

definition GetObjectHandler_handle ::
  "'s s3_client \<Rightarrow> string \<Rightarrow> args \<Rightarrow> 's world \<Rightarrow> ('s, TextContent list) outcome" where
  "GetObjectHandler_handle c name args w =
     try_except is_ClientError
       (case args of
          None \<Rightarrow> (Inl AttributeError, w)
        | Some m \<Rightarrow>
            (let bucket_name = dict_get m ''bucket_name'';
                 key = dict_get m ''key'';
                 version_id = dict_get m ''version_id'';
                 path = dict_get m ''path'';
                 kwargs = [(''Bucket'', bucket_name), (''Key'', key)];
                 kwargs = (if version_id \<noteq> PNone
                           then AList.update ''VersionId'' version_id kwargs else kwargs)
             in then_do
                  (invoke (S3Call ''get_object'' kwargs None) (get_object c kwargs) w)
                  (\<lambda>response w1.
                     (case py_open_wb (fs w1) path of
                        Inl e \<Rightarrow> (Inl e, w1)
                      | Inr f1 \<Rightarrow>
                          (case subscript (Body response) ''Body'' of
                             Inl e \<Rightarrow> (Inl e, w1\<lparr>fs := f1\<rparr>)
                           | Inr content \<Rightarrow>
                               (case py_write f1 path content of
                                  Inl e \<Rightarrow> (Inl e, w1\<lparr>fs := f1\<rparr>)
                                | Inr f2 \<Rightarrow>
                                    (Inr [TextContent ''text''
                                       (''Object '' @ py_str key @ '' saved successfully'')],
                                     w1\<lparr>fs := f2\<rparr>)))))))
       [TextContent ''text'' ''Failed to get object'']"

text \<open>\<^verbatim>\<open>PutObjectHandler.handle\<close>: the local file is opened before the client is called.\<close>

definition PutObjectHandler_handle ::
  "'s s3_client \<Rightarrow> string \<Rightarrow> args \<Rightarrow> 's world \<Rightarrow> ('s, TextContent list) outcome" where
  "PutObjectHandler_handle c name args w =
     try_except is_ClientError
       (case args of
          None \<Rightarrow> (Inl AttributeError, w)
        | Some m \<Rightarrow>
            (let bucket_name = dict_get m ''bucket_name'';
                 key = dict_get m ''key'';
                 path = dict_get m ''path'';
                 kwargs = [(''Bucket'', bucket_name), (''Key'', key)]
             in (case py_open_rb (fs w) path of
                   Inl e \<Rightarrow> (Inl e, w)
                 | Inr content \<Rightarrow>
                     then_do
                       (invoke (S3Call ''put_object'' kwargs (Some content))
                          (put_object c kwargs content) w)
                       (\<lambda>r w1. (Inr [TextContent ''text''
                                    (''Object '' @ py_str key @ '' saved successfully'')], w1)))))
       [TextContent ''text'' ''Failed to put object'']"

definition DeleteObjectHandler_handle ::
  "'s s3_client \<Rightarrow> string \<Rightarrow> args \<Rightarrow> 's world \<Rightarrow> ('s, TextContent list) outcome" where
  "DeleteObjectHandler_handle c name args w =
     try_except is_ClientError
       (case args of
          None \<Rightarrow> (Inl AttributeError, w)
        | Some m \<Rightarrow>
            (let bucket_name = dict_get m ''bucket_name'';
                 key = dict_get m ''key'';
                 version_id = dict_get m ''version_id'';
                 kwargs = [(''Bucket'', bucket_name), (''Key'', key)];
                 kwargs = (if version_id \<noteq> PNone
                           then AList.update ''VersionId'' version_id kwargs else kwargs)
             in then_do
                  (invoke (S3Call ''delete_object'' kwargs None) (delete_object c kwargs) w)
                  (\<lambda>r w1. (Inr [TextContent ''text''
                               (''Object '' @ py_str key @ '' deleted successfully'')], w1))))
       [TextContent ''text'' ''Failed to delete object'']"

definition GetObjectMetadataHandler_handle ::
  "'s s3_client \<Rightarrow> string \<Rightarrow> args \<Rightarrow> 's world \<Rightarrow> ('s, TextContent list) outcome" where
  "GetObjectMetadataHandler_handle c name args w =
     try_except is_ClientError
       (case args of
          None \<Rightarrow> (Inl AttributeError, w)
        | Some m \<Rightarrow>
            (let bucket_name = dict_get m ''bucket_name'';
                 key = dict_get m ''key'';
                 version_id = dict_get m ''version_id'';
                 kwargs = [(''Bucket'', bucket_name), (''Key'', key)];
                 kwargs = (if version_id \<noteq> PNone
                           then AList.update ''VersionId'' version_id kwargs else kwargs)
             in then_do
                  (invoke (S3Call ''head_object'' kwargs None) (head_object c kwargs) w)
                  (\<lambda>obj w1. (Inr [TextContent ''text''
                                 (''Metadata[content_type='' @ field_str (ContentType obj) []
                                  @ '', content_length='' @ field_str (ContentLength obj) []
                                  @ '',last_modified='' @ field_str (LastModified obj) []
                                  @ '']'')], w1))))
       [TextContent ''text'' ''Failed to get object metadata'']"

section \<open>The registry and the dispatcher\<close>

text \<open>
  The nine subclasses of \<^verbatim>\<open>ToolHandler\<close> (the base class, whose \<^verbatim>\<open>handle\<close> raises
  \<^verbatim>\<open>NotImplementedError\<close>, is never instantiated), the method each one overrides,
  and the dictionary \<^verbatim>\<open>tool_handlers\<close> in the order of the source.
\<close>

datatype ToolHandler =
    ListBucketsHandler
  | ExistsBucketHandler
  | CreateBucketHandler
  | DeleteBucketHandler
  | ListObjectsHandler
  | GetObjectHandler
  | PutObjectHandler
  | DeleteObjectHandler
  | GetObjectMetadataHandler

fun handle ::
  "ToolHandler \<Rightarrow> 's s3_client \<Rightarrow> string \<Rightarrow> args \<Rightarrow> 's world \<Rightarrow> ('s, TextContent list) outcome" where
  "handle ListBucketsHandler = ListBucketsHandler_handle"
| "handle ExistsBucketHandler = ExistsBucketHandler_handle"
| "handle CreateBucketHandler = CreateBucketHandler_handle"
| "handle DeleteBucketHandler = DeleteBucketHandler_handle"
| "handle ListObjectsHandler = ListObjectsHandler_handle"
| "handle GetObjectHandler = GetObjectHandler_handle"
| "handle PutObjectHandler = PutObjectHandler_handle"
| "handle DeleteObjectHandler = DeleteObjectHandler_handle"
| "handle GetObjectMetadataHandler = GetObjectMetadataHandler_handle"

definition tool_handlers :: "(string \<times> ToolHandler) list" where
  "tool_handlers =
     [(''list-buckets'', ListBucketsHandler),
      (''create-bucket'', CreateBucketHandler),
      (''delete-bucket'', DeleteBucketHandler),
      (''exists-bucket'', ExistsBucketHandler),
      (''list-objects'', ListObjectsHandler),
      (''get-object'', GetObjectHandler),
      (''put-object'', PutObjectHandler),
      (''delete-object'', DeleteObjectHandler),
      (''get-object-metadata'', GetObjectMetadataHandler)]"

definition handle_call_tool ::
  "'s s3_client \<Rightarrow> string \<Rightarrow> args \<Rightarrow> 's world \<Rightarrow> ('s, TextContent list) outcome" where
  "handle_call_tool c name args w =
     (case map_of tool_handlers name of
        Some h \<Rightarrow> handle h c name args w
      | None \<Rightarrow> (Inl (ValueError (''Unknown tool: '' @ name)), w))"

section \<open>The resource listing and the tool catalogue\<close>

datatype Resource = Resource string string string string

text \<open>
  \<^verbatim>\<open>list_resources\<close>: one \<^verbatim>\<open>Resource(uri, name, mimeType, description)\<close> for each
  bucket of the listing.
\<close>

definition list_resources :: "'s s3_client \<Rightarrow> 's world \<Rightarrow> ('s, Resource list) outcome" where
  "list_resources c w =
     try_except is_RuntimeError
       (then_do (invoke (S3Call ''list_buckets'' [] None) (list_buckets c) w)
          (\<lambda>buckets w1.
             (case subscript (Buckets buckets) ''Buckets'' of
                Inl e \<Rightarrow> (Inl e, w1)
              | Inr bs \<Rightarrow>
                  (comprehension
                     (\<lambda>bucket. case subscript (Name bucket) ''Name'' of
                        Inl e \<Rightarrow> Inl e
                      | Inr n \<Rightarrow> Inr (Resource (''s3://'' @ n) (''Bucket: '' @ n) ''text/plain''
                                       (''Data in bucket: '' @ n)))
                     bs, w1))))
       []"

text \<open>
  \<^verbatim>\<open>handle_list_tools\<close>: a tool has a name, a description and an input schema; a
  schema has its properties (name, type, description) and the list
  \<^verbatim>\<open>required\<close>, which the schema of \<^verbatim>\<open>list-buckets\<close> does not have.
\<close>

datatype InputSchema = InputSchema "(string \<times> string \<times> string) list" "string list option"

datatype Tool = Tool string string InputSchema

fun tool_name :: "Tool \<Rightarrow> string" where
  "tool_name (Tool n d s) = n"

fun required :: "Tool \<Rightarrow> string list" where
  "required (Tool n d (InputSchema ps None)) = []"
| "required (Tool n d (InputSchema ps (Some rs))) = rs"

definition handle_list_tools :: "Tool list" where
  "handle_list_tools =
     [Tool ''list-buckets'' ''List all buckets with permissions in the object storage''
        (InputSchema [] None),
      Tool ''exists-bucket'' ''Check if a bucket exists''
        (InputSchema
           [(''bucket_name'', ''string'', ''The name of the bucket to check'')]
           (Some [''bucket_name''])),
      Tool ''create-bucket'' ''Create a new bucket with permissions in the object storage''
        (InputSchema
           [(''bucket_name'', ''string'', ''The name of the bucket to create'')]
           (Some [''bucket_name''])),
      Tool ''delete-bucket'' ''Delete a bucket with permissions in the object storage''
        (InputSchema
           [(''bucket_name'', ''string'', ''The name of the bucket to delete'')]
           (Some [''bucket_name''])),
      Tool ''list-objects'' ''List all objects in a bucket''
        (InputSchema
           [(''bucket_name'', ''string'', ''The name of the bucket to list objects from''),
            (''prefix'', ''string'', ''The prefix to filter objects by''),
            (''delimiter'', ''string'', ''The delimiter to use when listing objects''),
            (''max_keys'', ''integer'', ''The maximum number of keys to return''),
            (''continuation_token'', ''string'',
             ''The continuation token to use when listing objects''),
            (''start_after'', ''string'', ''The key to start listing objects after'')]
           (Some [''bucket_name''])),
      Tool ''get-object'' ''Get an object from a bucket''
        (InputSchema
           [(''bucket_name'', ''string'', ''The name of the bucket to get the object from''),
            (''key'', ''string'', ''The key of the object to get''),
            (''version_id'', ''string'', ''The version ID of the object to get''),
            (''path'', ''string'', ''The path to save the object to'')]
           (Some [''bucket_name'', ''key'', ''path''])),
      Tool ''put-object'' ''Put an object into a bucket''
        (InputSchema
           [(''bucket_name'', ''string'', ''The name of the bucket to put the object into''),
            (''key'', ''string'', ''The key of the object to put''),
            (''path'', ''string'', ''The path to the object to put'')]
           (Some [''bucket_name'', ''key'', ''path''])),
      Tool ''delete-object'' ''Delete an object from a bucket''
        (InputSchema
           [(''bucket_name'', ''string'', ''The name of the bucket to delete the object from''),
            (''key'', ''string'', ''The key of the object to delete''),
            (''version_id'', ''string'', ''The version ID of the object to delete'')]
           (Some [''bucket_name'', ''key''])),
      Tool ''get-object-metadata'' ''Get object metadata from a bucket''
        (InputSchema
           [(''bucket_name'', ''string'',
             ''The name of the bucket to get the object metadata from''),
            (''key'', ''string'', ''The key of the object to get metadata for''),
            (''version_id'', ''string'', ''The version ID of the object to get metadata for'')]
           (Some [''bucket_name'', ''key'']))]"

section \<open>Start-up\<close>

text \<open>
  The environment maps a variable to its value; \<^verbatim>\<open>os.getenv(k)\<close> is \<^verbatim>\<open>None\<close> for
  a variable that is not set, and \<^verbatim>\<open>os.getenv(k, d)\<close> is \<open>d\<close> then.
\<close>

type_synonym environ = "string \<rightharpoonup> string"

definition getenv :: "environ \<Rightarrow> string \<Rightarrow> string option" where
  "getenv env k = env k"

definition getenv_default :: "environ \<Rightarrow> string \<Rightarrow> string \<Rightarrow> string option" where
  "getenv_default env k d = (case env k of None \<Rightarrow> Some d | Some v \<Rightarrow> Some v)"

text \<open>
  The dictionary \<^verbatim>\<open>config\<close>, whose third key is spelt \<^verbatim>\<open>access_key-secret\<close> in
  the source.
\<close>

record config =
  endpoint :: "string option"
  access_key_id :: "string option"
  access_key_secret :: "string option"
  region_name :: "string option"

text \<open>The truth value of a string or \<^verbatim>\<open>None\<close>, as \<^verbatim>\<open>all\<close> takes it.\<close>

fun truthy :: "string option \<Rightarrow> bool" where
  "truthy None = False"
| "truthy (Some s) = (s \<noteq> [])"

definition load_config :: "environ \<Rightarrow> py_exc + config" where
  "load_config env =
     (let cfg = \<lparr>endpoint = getenv env ''ENDPOINT'',
                 access_key_id = getenv env ''ACCESS_KEY_ID'',
                 access_key_secret = getenv env ''ACCESS_KEY_SECRET'',
                 region_name = getenv_default env ''REGION_NAME'' ''us-east-1''\<rparr>
      in if \<not> list_all truthy [endpoint cfg, access_key_id cfg, access_key_secret cfg]
         then Inl (ValueError ''Missing required configuration'')
         else Inr cfg)"

text \<open>The keyword arguments that \<^verbatim>\<open>init_client\<close> passes to \<^verbatim>\<open>boto3.client\<close>.\<close>

record client_args =
  service_name :: string
  endpoint_url :: "string option"
  aws_access_key_id :: "string option"
  aws_secret_access_key :: "string option"
  client_region_name :: "string option"

text \<open>
  \<^verbatim>\<open>boto3.client\<close> is outside the repository and may raise (an endpoint that is
  not a URL makes it raise \<^verbatim>\<open>ValueError\<close>): it is the parameter \<open>boto3_client\<close>,
  which returns the client of type \<open>'h\<close> or the exception.  \<^verbatim>\<open>init_client\<close> returns
  what it assigns to the global \<^verbatim>\<open>client\<close>, or the exception that ends it, together
  with the calls of \<^verbatim>\<open>boto3.client\<close> it has made.
\<close>

definition init_client ::
  "(client_args \<Rightarrow> py_exc + 'h) \<Rightarrow> environ \<Rightarrow> (py_exc + 'h) \<times> client_args list" where
  "init_client boto3_client env =
     (case load_config env of
        Inl e \<Rightarrow> (Inl e, [])
      | Inr cfg \<Rightarrow>
          (let a = \<lparr>service_name = ''s3'',
                    endpoint_url = endpoint cfg,
                    aws_access_key_id = access_key_id cfg,
                    aws_secret_access_key = access_key_secret cfg,
                    client_region_name = region_name cfg\<rparr>
           in (boto3_client a, [a])))"

text \<open>
  \<^verbatim>\<open>main\<close>: \<^verbatim>\<open>init_client\<close> runs first; the server loop, which is what makes the
  tools callable, is entered only when it has returned.
\<close>

datatype 'h startup = Aborted py_exc | Serving 'h

definition main ::
  "(client_args \<Rightarrow> py_exc + 'h) \<Rightarrow> environ \<Rightarrow> 'h startup \<times> client_args list" where
  "main boto3_client env =
     (case init_client boto3_client env of
        (Inl e, made) \<Rightarrow> (Aborted e, made)
      | (Inr cl, made) \<Rightarrow> (Serving cl, made))"

section \<open>Two storage clients to run the handlers against\<close>

text \<open>
  The storage service is not part of the repository.  The first client below
  stands for a service whose every call fails with the same exception; the
  second keeps buckets of objects in a key-value store.
\<close>

definition faulty_client :: "py_exc \<Rightarrow> unit s3_client" where
  "faulty_client e =
     \<lparr>list_buckets = (\<lambda>s. (Inl e, s)),
      head_bucket = (\<lambda>kw s. (Inl e, s)),
      create_bucket = (\<lambda>kw s. (Inl e, s)),
      delete_bucket = (\<lambda>kw s. (Inl e, s)),
      list_objects_v2 = (\<lambda>kw s. (Inl e, s)),
      get_object = (\<lambda>kw s. (Inl e, s)),
      put_object = (\<lambda>kw content s. (Inl e, s)),
      delete_object = (\<lambda>kw s. (Inl e, s)),
      head_object = (\<lambda>kw s. (Inl e, s))\<rparr>"

text \<open>
  The key-value store: each bucket, by the value given as its name, with its
  objects, by the value given as key.  It has no versions (a \<^verbatim>\<open>VersionId\<close> is
  ignored), it lists every object of a bucket whatever the paging arguments are,
  and, as the service does, it leaves \<^verbatim>\<open>Contents\<close> out of the listing of a bucket
  without objects.
\<close>

type_synonym kv_store = "(pyval \<times> (pyval \<times> byte list) list) list"

definition kw_get :: "kwargs \<Rightarrow> string \<Rightarrow> pyval" where
  "kw_get kw k = (case map_of kw k of None \<Rightarrow> PNone | Some v \<Rightarrow> v)"

definition kv_bucket_entry :: "pyval \<Rightarrow> bucket_entry" where
  "kv_bucket_entry b = \<lparr>Name = Some (py_str b)\<rparr>"

definition kv_object_entry :: "pyval \<Rightarrow> object_entry" where
  "kv_object_entry k = \<lparr>Key = Some k, VersionId = None\<rparr>"

definition kv_list_buckets :: "kv_store \<Rightarrow> (py_exc + list_buckets_output) \<times> kv_store" where
  "kv_list_buckets s = (Inr \<lparr>Buckets = Some (map (\<lambda>b. kv_bucket_entry (fst b)) s)\<rparr>, s)"

definition kv_head_bucket :: "kwargs \<Rightarrow> kv_store \<Rightarrow> (py_exc + unit) \<times> kv_store" where
  "kv_head_bucket kw s =
     (case map_of s (kw_get kw ''Bucket'') of
        None \<Rightarrow> (Inl (ClientError ''404''), s)
      | Some objs \<Rightarrow> (Inr (), s))"

definition kv_create_bucket :: "kwargs \<Rightarrow> kv_store \<Rightarrow> (py_exc + unit) \<times> kv_store" where
  "kv_create_bucket kw s =
     (case map_of s (kw_get kw ''Bucket'') of
        None \<Rightarrow> (Inr (), s @ [(kw_get kw ''Bucket'', [])])
      | Some objs \<Rightarrow> (Inl (ClientError ''BucketAlreadyOwnedByYou''), s))"

definition kv_delete_bucket :: "kwargs \<Rightarrow> kv_store \<Rightarrow> (py_exc + unit) \<times> kv_store" where
  "kv_delete_bucket kw s =
     (case map_of s (kw_get kw ''Bucket'') of
        None \<Rightarrow> (Inl (ClientError ''NoSuchBucket''), s)
      | Some objs \<Rightarrow>
          if objs = [] then (Inr (), AList.delete (kw_get kw ''Bucket'') s)
          else (Inl (ClientError ''BucketNotEmpty''), s))"

definition kv_list_objects_v2 ::
  "kwargs \<Rightarrow> kv_store \<Rightarrow> (py_exc + list_objects_output) \<times> kv_store" where
  "kv_list_objects_v2 kw s =
     (case map_of s (kw_get kw ''Bucket'') of
        None \<Rightarrow> (Inl (ClientError ''NoSuchBucket''), s)
      | Some objs \<Rightarrow>
          if objs = [] then (Inr \<lparr>Contents = None\<rparr>, s)
          else (Inr \<lparr>Contents = Some (map (\<lambda>obj. kv_object_entry (fst obj)) objs)\<rparr>, s))"

definition kv_get_object ::
  "kwargs \<Rightarrow> kv_store \<Rightarrow> (py_exc + get_object_output) \<times> kv_store" where
  "kv_get_object kw s =
     (case map_of s (kw_get kw ''Bucket'') of
        None \<Rightarrow> (Inl (ClientError ''NoSuchBucket''), s)
      | Some objs \<Rightarrow>
          (case map_of objs (kw_get kw ''Key'') of
             None \<Rightarrow> (Inl (ClientError ''NoSuchKey''), s)
           | Some content \<Rightarrow> (Inr \<lparr>Body = Some content\<rparr>, s)))"

definition kv_put_object ::
  "kwargs \<Rightarrow> byte list \<Rightarrow> kv_store \<Rightarrow> (py_exc + unit) \<times> kv_store" where
  "kv_put_object kw content s =
     (case map_of s (kw_get kw ''Bucket'') of
        None \<Rightarrow> (Inl (ClientError ''NoSuchBucket''), s)
      | Some objs \<Rightarrow>
          (Inr (), AList.update (kw_get kw ''Bucket'')
                     (AList.update (kw_get kw ''Key'') content objs) s))"

definition kv_delete_object :: "kwargs \<Rightarrow> kv_store \<Rightarrow> (py_exc + unit) \<times> kv_store" where
  "kv_delete_object kw s =
     (case map_of s (kw_get kw ''Bucket'') of
        None \<Rightarrow> (Inl (ClientError ''NoSuchBucket''), s)
      | Some objs \<Rightarrow>
          (Inr (), AList.update (kw_get kw ''Bucket'')
                     (AList.delete (kw_get kw ''Key'') objs) s))"

definition kv_head_object ::
  "kwargs \<Rightarrow> kv_store \<Rightarrow> (py_exc + head_object_output) \<times> kv_store" where
  "kv_head_object kw s =
     (case map_of s (kw_get kw ''Bucket'') of
        None \<Rightarrow> (Inl (ClientError ''404''), s)
      | Some objs \<Rightarrow>
          (case map_of objs (kw_get kw ''Key'') of
             None \<Rightarrow> (Inl (ClientError ''404''), s)
           | Some content \<Rightarrow>
               (Inr \<lparr>ContentType = None,
                     ContentLength = Some (PInt (int (length content))),
                     LastModified = None\<rparr>, s)))"

definition kv_client :: "kv_store s3_client" where
  "kv_client =
     \<lparr>list_buckets = kv_list_buckets,
      head_bucket = kv_head_bucket,
      create_bucket = kv_create_bucket,
      delete_bucket = kv_delete_bucket,
      list_objects_v2 = kv_list_objects_v2,
      get_object = kv_get_object,
      put_object = kv_put_object,
      delete_object = kv_delete_object,
      head_object = kv_head_object\<rparr>"

text \<open>The body stored under a bucket and a key.\<close>

definition kv_body :: "kv_store \<Rightarrow> pyval \<Rightarrow> pyval \<Rightarrow> byte list option" where
  "kv_body s b k = (case map_of s b of None \<Rightarrow> None | Some objs \<Rightarrow> map_of objs k)"

text \<open>The same \<^verbatim>\<open>put-object\<close> call made \<open>n\<close> times in a row.\<close>

fun put_object_times ::
  "nat \<Rightarrow> 's s3_client \<Rightarrow> args \<Rightarrow> 's world \<Rightarrow> 's world" where
  "put_object_times 0 c a w = w"
| "put_object_times (Suc n) c a w =
     put_object_times n c a (snd (handle_call_tool c ''put-object'' a w))"

text \<open>A world with nothing in it, and files: none can be written unless listed.\<close>

definition no_files :: filesystem where
  "no_files = \<lparr>files = Map.empty, can_open_wb = (\<lambda>p. False), can_write = (\<lambda>p. False)\<rparr>"

text \<open>Files that can all be opened for writing, where every write fails.\<close>

definition write_fails :: filesystem where
  "write_fails = \<lparr>files = Map.empty, can_open_wb = (\<lambda>p. True), can_write = (\<lambda>p. False)\<rparr>"

text \<open>The given files, where every path can be opened for writing and written.\<close>

definition writable_files :: "(pyval \<rightharpoonup> byte list) \<Rightarrow> filesystem" where
  "writable_files fm = \<lparr>files = fm, can_open_wb = (\<lambda>p. True), can_write = (\<lambda>p. True)\<rparr>"

definition start_world :: "'s \<Rightarrow> filesystem \<Rightarrow> 's world" where
  "start_world s f = \<lparr>backend = s, fs = f, calls = []\<rparr>"

text \<open>
  The keyword arguments that \<^verbatim>\<open>ListObjectsHandler.handle\<close> builds before its call,
  and those that the three handlers with an optional \<^verbatim>\<open>version_id\<close> build, taken out
  of the handlers to state what is sent.
\<close>

definition list_objects_kwargs :: "pydict \<Rightarrow> kwargs" where
  "list_objects_kwargs m =
     (let bucket_name = dict_get m ''bucket_name'';
          prefix = dict_get m ''prefix'';
          delimiter = dict_get m ''delimiter'';
          max_keys = dict_get_default m ''max_keys'' (PInt 1000);
          continuation_token = dict_get m ''continuation_token'';
          start_after = dict_get m ''start_after'';
          kwargs = [(''Bucket'', bucket_name)];
          kwargs = (if prefix \<noteq> PNone
                    then AList.update ''Prefix'' prefix kwargs else kwargs);
          kwargs = (if delimiter \<noteq> PNone
                    then AList.update ''Delimiter'' delimiter kwargs else kwargs);
          kwargs = (if max_keys \<noteq> PNone
                    then AList.update ''MaxKeys'' max_keys kwargs else kwargs);
          kwargs = (if continuation_token \<noteq> PNone
                    then AList.update ''ContinuationToken'' continuation_token kwargs
                    else kwargs);
          kwargs = (if start_after \<noteq> PNone
                    then AList.update ''StartAfter'' start_after kwargs else kwargs)
      in kwargs)"

definition versioned_kwargs :: "pydict \<Rightarrow> kwargs" where
  "versioned_kwargs m =
     (let bucket_name = dict_get m ''bucket_name'';
          key = dict_get m ''key'';
          version_id = dict_get m ''version_id'';
          kwargs = [(''Bucket'', bucket_name), (''Key'', key)];
          kwargs = (if version_id \<noteq> PNone
                    then AList.update ''VersionId'' version_id kwargs else kwargs)
      in kwargs)"

section \<open>Properties of the dispatcher and the handlers\<close>

lemmas plumbing = invoke_def then_do_def try_except_def subscript_def dict_get_def

text \<open>Each registered name reaches the method of its own handler class.\<close>

lemma dispatch_table:
  "handle_call_tool c ''list-buckets'' a w = ListBucketsHandler_handle c ''list-buckets'' a w"
  "handle_call_tool c ''exists-bucket'' a w = ExistsBucketHandler_handle c ''exists-bucket'' a w"
  "handle_call_tool c ''create-bucket'' a w = CreateBucketHandler_handle c ''create-bucket'' a w"
  "handle_call_tool c ''delete-bucket'' a w = DeleteBucketHandler_handle c ''delete-bucket'' a w"
  "handle_call_tool c ''list-objects'' a w = ListObjectsHandler_handle c ''list-objects'' a w"
  "handle_call_tool c ''get-object'' a w = GetObjectHandler_handle c ''get-object'' a w"
  "handle_call_tool c ''put-object'' a w = PutObjectHandler_handle c ''put-object'' a w"
  "handle_call_tool c ''delete-object'' a w = DeleteObjectHandler_handle c ''delete-object'' a w"
  "handle_call_tool c ''get-object-metadata'' a w =
     GetObjectMetadataHandler_handle c ''get-object-metadata'' a w"
  by (simp_all add: handle_call_tool_def tool_handlers_def)

text \<open>
  C4. For every \<^verbatim>\<open>exists-bucket\<close> invocation whose arguments hold a
  \<^verbatim>\<open>bucket_name\<close>: when \<^verbatim>\<open>head_bucket\<close> returns, the result is the single block
  "Bucket <bucket_name> exists"; when it raises a \<^verbatim>\<open>ClientError\<close>, whatever its
  error code (not found, access denied, ...), the result is the single block
  "Bucket <bucket_name> not exists".
\<close>

theorem exists_bucket_result:
  assumes "m ''bucket_name'' = Some v"
  shows "(\<forall>b. head_bucket c [(''Bucket'', v)] (backend w) = (Inr (), b) \<longrightarrow>
            fst (handle_call_tool c ''exists-bucket'' (Some m) w)
              = Inr [TextContent ''text'' (''Bucket '' @ py_str v @ '' exists'')])
       \<and> (\<forall>code b. head_bucket c [(''Bucket'', v)] (backend w) = (Inl (ClientError code), b) \<longrightarrow>
            fst (handle_call_tool c ''exists-bucket'' (Some m) w)
              = Inr [TextContent ''text'' (''Bucket '' @ py_str v @ '' not exists'')])"
  using assms
  by (simp add: dispatch_table ExistsBucketHandler_handle_def plumbing)

text \<open>
  The bucket \<^verbatim>\<open>photos\<close> probed in a store that has it, in a store that does not
  (error code 404), and through a client that answers 403.
\<close>

theorem exists_bucket_result_witness:
  "fst (handle_call_tool kv_client ''exists-bucket'' (Some [''bucket_name'' \<mapsto> PStr ''photos''])
          (start_world [(PStr ''photos'', [])] no_files))
     = Inr [TextContent ''text'' ''Bucket photos exists'']
   \<and> fst (handle_call_tool kv_client ''exists-bucket'' (Some [''bucket_name'' \<mapsto> PStr ''photos''])
          (start_world [] no_files))
     = Inr [TextContent ''text'' ''Bucket photos not exists'']
   \<and> fst (handle_call_tool (faulty_client (ClientError ''403'')) ''exists-bucket''
          (Some [''bucket_name'' \<mapsto> PStr ''photos'']) (start_world () no_files))
     = Inr [TextContent ''text'' ''Bucket photos not exists'']"
  using exists_bucket_result [of "[''bucket_name'' \<mapsto> PStr ''photos'']" "PStr ''photos''" kv_client
          "start_world [(PStr ''photos'', [])] no_files"]
        exists_bucket_result [of "[''bucket_name'' \<mapsto> PStr ''photos'']" "PStr ''photos''" kv_client
          "start_world [] no_files"]
        exists_bucket_result [of "[''bucket_name'' \<mapsto> PStr ''photos'']" "PStr ''photos''"
          "faulty_client (ClientError ''403'')" "start_world () no_files"]
  by (simp add: kv_client_def kv_head_bucket_def kw_get_def faulty_client_def start_world_def)

text \<open>
  C1. A registered name reaches the \<^verbatim>\<open>handle\<close> method of its own handler, whose
  result \<^verbatim>\<open>handle_call_tool\<close> returns as it is; any other name raises
  \<^verbatim>\<open>ValueError("Unknown tool: <name>")\<close> to the caller, with the world, and so the
  record of client calls, left as it was.
\<close>

theorem handle_call_tool_dispatch:
  "handle_call_tool c ''list-buckets'' a w = ListBucketsHandler_handle c ''list-buckets'' a w
   \<and> handle_call_tool c ''exists-bucket'' a w = ExistsBucketHandler_handle c ''exists-bucket'' a w
   \<and> handle_call_tool c ''create-bucket'' a w = CreateBucketHandler_handle c ''create-bucket'' a w
   \<and> handle_call_tool c ''delete-bucket'' a w = DeleteBucketHandler_handle c ''delete-bucket'' a w
   \<and> handle_call_tool c ''list-objects'' a w = ListObjectsHandler_handle c ''list-objects'' a w
   \<and> handle_call_tool c ''get-object'' a w = GetObjectHandler_handle c ''get-object'' a w
   \<and> handle_call_tool c ''put-object'' a w = PutObjectHandler_handle c ''put-object'' a w
   \<and> handle_call_tool c ''delete-object'' a w = DeleteObjectHandler_handle c ''delete-object'' a w
   \<and> handle_call_tool c ''get-object-metadata'' a w
       = GetObjectMetadataHandler_handle c ''get-object-metadata'' a w
   \<and> (name \<notin> {''list-buckets'', ''exists-bucket'', ''create-bucket'', ''delete-bucket'',
                 ''list-objects'', ''get-object'', ''put-object'', ''delete-object'',
                 ''get-object-metadata''} \<longrightarrow>
        handle_call_tool c name a w = (Inl (ValueError (''Unknown tool: '' @ name)), w)
        \<and> calls (snd (handle_call_tool c name a w)) = calls w)"
  by (simp add: handle_call_tool_def tool_handlers_def)

theorem handle_call_tool_dispatch_witness:
  "''drop-table'' \<notin> {''list-buckets'', ''exists-bucket'', ''create-bucket'', ''delete-bucket'',
                 ''list-objects'', ''get-object'', ''put-object'', ''delete-object'',
                 ''get-object-metadata''}
   \<and> handle_call_tool kv_client ''drop-table'' (Some Map.empty) (start_world [] no_files)
       = (Inl (ValueError ''Unknown tool: drop-table''), start_world [] no_files)
   \<and> calls (snd (handle_call_tool kv_client ''drop-table'' (Some Map.empty)
                  (start_world [] no_files))) = []"
  using handle_call_tool_dispatch [of kv_client "Some Map.empty" "start_world [] no_files" "''drop-table''"]
  by (simp add: start_world_def)

text \<open>
  What \<^verbatim>\<open>ListObjectsHandler.handle\<close> does with a dictionary of arguments, in terms
  of the answer of \<^verbatim>\<open>list_objects_v2\<close>.
\<close>

lemma list_objects_outcome:
  "ListObjectsHandler_handle c n (Some m) w =
     (case list_objects_v2 c (list_objects_kwargs m) (backend w) of
        (r, b) \<Rightarrow>
          (case r of
             Inl e \<Rightarrow>
               (if is_ClientError e then Inr [TextContent ''text'' ''Failed to list objects'']
                else Inl e)
           | Inr response \<Rightarrow>
               (case Contents response of
                  None \<Rightarrow> Inl (KeyError ''Contents'')
                | Some objs \<Rightarrow>
                    Inr (map (\<lambda>obj. TextContent ''text''
                           (''Object[key='' @ field_str (Key obj) ''null''
                            @ '', version_id='' @ field_str (VersionId obj) ''null''
                            @ '']'')) objs)),
           w\<lparr>backend := b,
              calls := calls w @ [S3Call ''list_objects_v2'' (list_objects_kwargs m) None]\<rparr>))"
proof -
  have "ListObjectsHandler_handle c n (Some m) w =
     try_except is_ClientError
       (then_do
          (invoke (S3Call ''list_objects_v2'' (list_objects_kwargs m) None)
             (list_objects_v2 c (list_objects_kwargs m)) w)
          (\<lambda>response w1.
             (case subscript (Contents response) ''Contents'' of
                Inl e \<Rightarrow> (Inl e, w1)
              | Inr objs \<Rightarrow>
                  (Inr (map (\<lambda>obj. TextContent ''text''
                          (''Object[key='' @ field_str (Key obj) ''null''
                           @ '', version_id='' @ field_str (VersionId obj) ''null''
                           @ '']'')) objs), w1))))
       [TextContent ''text'' ''Failed to list objects'']"
    unfolding ListObjectsHandler_handle_def list_objects_kwargs_def Let_def by simp
  then show ?thesis
    by (simp add: invoke_def then_do_def try_except_def subscript_def
          split: prod.splits sum.splits option.splits)
qed

lemma list_objects_kwargs_lookup:
  "map_of (list_objects_kwargs m) ''Bucket'' = Some (dict_get m ''bucket_name'')"
  "map_of (list_objects_kwargs m) ''Prefix'' =
     (case m ''prefix'' of None \<Rightarrow> None | Some v \<Rightarrow> if v = PNone then None else Some v)"
  "map_of (list_objects_kwargs m) ''Delimiter'' =
     (case m ''delimiter'' of None \<Rightarrow> None | Some v \<Rightarrow> if v = PNone then None else Some v)"
  "map_of (list_objects_kwargs m) ''ContinuationToken'' =
     (case m ''continuation_token'' of None \<Rightarrow> None
      | Some v \<Rightarrow> if v = PNone then None else Some v)"
  "map_of (list_objects_kwargs m) ''StartAfter'' =
     (case m ''start_after'' of None \<Rightarrow> None | Some v \<Rightarrow> if v = PNone then None else Some v)"
  "map_of (list_objects_kwargs m) ''MaxKeys'' =
     (case m ''max_keys'' of None \<Rightarrow> Some (PInt 1000)
      | Some v \<Rightarrow> if v = PNone then None else Some v)"
  by (simp_all add: list_objects_kwargs_def Let_def dict_get_def dict_get_default_def
        update_conv' split: option.splits)

text \<open>
  C10. A \<^verbatim>\<open>list-objects\<close> invocation whose \<^verbatim>\<open>list_objects_v2\<close> call returns a
  response without \<^verbatim>\<open>Contents\<close> raises \<^verbatim>\<open>KeyError('Contents')\<close>: the handler
  returns neither an empty list of blocks nor "Failed to list objects".  The call
  is the one the handler records.
\<close>

theorem list_objects_without_contents_raises:
  assumes "calls (snd (handle_call_tool c ''list-objects'' (Some m) w))
             = calls w @ [S3Call ''list_objects_v2'' kw None]"
      and "list_objects_v2 c kw (backend w) = (Inr r, b)"
      and "Contents r = None"
  shows "fst (handle_call_tool c ''list-objects'' (Some m) w) = Inl (KeyError ''Contents'')"
proof -
  have "kw = list_objects_kwargs m"
    using assms(1) by (simp add: dispatch_table list_objects_outcome split: prod.splits)
  with assms(2,3) show ?thesis
    by (simp add: dispatch_table list_objects_outcome)
qed

text \<open>The listing of a bucket without objects in the key-value store.\<close>

theorem list_objects_without_contents_raises_witness:
  "calls (snd (handle_call_tool kv_client ''list-objects'' (Some [''bucket_name'' \<mapsto> PStr ''empty''])
                 (start_world [(PStr ''empty'', [])] no_files)))
     = calls (start_world [(PStr ''empty'', [])] no_files)
       @ [S3Call ''list_objects_v2'' [(''Bucket'', PStr ''empty''), (''MaxKeys'', PInt 1000)] None]
   \<and> list_objects_v2 kv_client [(''Bucket'', PStr ''empty''), (''MaxKeys'', PInt 1000)]
         (backend (start_world [(PStr ''empty'', [])] no_files))
       = (Inr \<lparr>Contents = None\<rparr>, [(PStr ''empty'', [])])
   \<and> Contents \<lparr>Contents = None\<rparr> = None
   \<and> fst (handle_call_tool kv_client ''list-objects'' (Some [''bucket_name'' \<mapsto> PStr ''empty''])
            (start_world [(PStr ''empty'', [])] no_files))
       = Inl (KeyError ''Contents'')"
  using list_objects_without_contents_raises
          [of kv_client "[''bucket_name'' \<mapsto> PStr ''empty'']"
              "start_world [(PStr ''empty'', [])] no_files"
              "[(''Bucket'', PStr ''empty''), (''MaxKeys'', PInt 1000)]"
              "\<lparr>Contents = None\<rparr>" "[(PStr ''empty'', [])]"]
  by (simp add: dispatch_table list_objects_outcome list_objects_kwargs_def Let_def dict_get_def
        dict_get_default_def kv_client_def kv_list_objects_v2_def kw_get_def start_world_def)

text \<open>
  C5, as amended.  A \<^verbatim>\<open>list-objects\<close> invocation makes one \<^verbatim>\<open>list_objects_v2\<close>
  call.  It carries \<^verbatim>\<open>Bucket\<close>, the value read for \<^verbatim>\<open>bucket_name\<close>.  Each of
  \<^verbatim>\<open>Prefix\<close>, \<^verbatim>\<open>Delimiter\<close>, \<^verbatim>\<open>ContinuationToken\<close> and \<^verbatim>\<open>StartAfter\<close> is in the
  call exactly when the argument mapping holds its argument with a value other
  than \<^verbatim>\<open>None\<close>, and then with that value.  When \<^verbatim>\<open>max_keys\<close> is not in the
  mapping, \<^verbatim>\<open>MaxKeys\<close> is 1000.
\<close>

theorem list_objects_call_arguments:
  "\<exists>kw. calls (snd (handle_call_tool c ''list-objects'' (Some m) w))
           = calls w @ [S3Call ''list_objects_v2'' kw None]
     \<and> map_of kw ''Bucket'' = Some (dict_get m ''bucket_name'')
     \<and> map_of kw ''Prefix''
         = (case m ''prefix'' of None \<Rightarrow> None | Some v \<Rightarrow> if v = PNone then None else Some v)
     \<and> map_of kw ''Delimiter''
         = (case m ''delimiter'' of None \<Rightarrow> None | Some v \<Rightarrow> if v = PNone then None else Some v)
     \<and> map_of kw ''ContinuationToken''
         = (case m ''continuation_token'' of None \<Rightarrow> None
            | Some v \<Rightarrow> if v = PNone then None else Some v)
     \<and> map_of kw ''StartAfter''
         = (case m ''start_after'' of None \<Rightarrow> None
            | Some v \<Rightarrow> if v = PNone then None else Some v)
     \<and> (m ''max_keys'' = None \<longrightarrow> map_of kw ''MaxKeys'' = Some (PInt 1000))"
proof (intro exI conjI)
  show "calls (snd (handle_call_tool c ''list-objects'' (Some m) w))
          = calls w @ [S3Call ''list_objects_v2'' (list_objects_kwargs m) None]"
    by (simp add: dispatch_table list_objects_outcome split: prod.splits)
qed (simp_all add: list_objects_kwargs_lookup)

theorem list_objects_call_arguments_witness:
  "[''bucket_name'' \<mapsto> PStr ''b'', ''prefix'' \<mapsto> PStr ''logs/''] ''max_keys'' = None
   \<and> calls (snd (handle_call_tool kv_client ''list-objects''
                 (Some [''bucket_name'' \<mapsto> PStr ''b'', ''prefix'' \<mapsto> PStr ''logs/''])
                 (start_world [] no_files)))
     = [S3Call ''list_objects_v2''
          [(''Bucket'', PStr ''b''), (''Prefix'', PStr ''logs/''), (''MaxKeys'', PInt 1000)] None]"
  using list_objects_call_arguments
          [of kv_client "[''bucket_name'' \<mapsto> PStr ''b'', ''prefix'' \<mapsto> PStr ''logs/'']"
              "start_world [] no_files"]
  by (simp add: dispatch_table list_objects_outcome list_objects_kwargs_def Let_def dict_get_def
        dict_get_default_def start_world_def split: prod.splits)

text \<open>
  The claim as first stated fails on an argument that is in the mapping with the
  value \<^verbatim>\<open>None\<close> (a JSON \<^verbatim>\<open>null\<close>): \<^verbatim>\<open>prefix\<close> is present, \<^verbatim>\<open>Prefix\<close> is not sent.
\<close>

theorem null_prefix_counterexample:
  "''prefix'' \<in> dom [''bucket_name'' \<mapsto> PStr ''b'', ''prefix'' \<mapsto> PNone]
   \<and> calls (snd (handle_call_tool kv_client ''list-objects''
                   (Some [''bucket_name'' \<mapsto> PStr ''b'', ''prefix'' \<mapsto> PNone])
                   (start_world [] no_files)))
       = [S3Call ''list_objects_v2'' [(''Bucket'', PStr ''b''), (''MaxKeys'', PInt 1000)] None]"
  by (simp add: dispatch_table list_objects_outcome list_objects_kwargs_def Let_def dict_get_def
        dict_get_default_def start_world_def split: prod.splits)

text \<open>
  C7, as amended.  \<^verbatim>\<open>load_config\<close> raises, and it is
  \<^verbatim>\<open>ValueError("Missing required configuration")\<close>, exactly when one of \<^verbatim>\<open>ENDPOINT\<close>,
  \<^verbatim>\<open>ACCESS_KEY_ID\<close>, \<^verbatim>\<open>ACCESS_KEY_SECRET\<close> is unset or set to the empty string;
  start-up then stops before \<^verbatim>\<open>boto3.client\<close> is called and before the server loop.
  Otherwise \<^verbatim>\<open>boto3.client\<close> is called once, with the three values and the region,
  \<^verbatim>\<open>us-east-1\<close> when \<^verbatim>\<open>REGION_NAME\<close> is unset: the server loop is entered with the
  client it returns, and start-up stops with the exception it raises.
\<close>

theorem startup_configuration:
  "(\<exists>e. load_config env = Inl e)
     = (env ''ENDPOINT'' = None \<or> env ''ENDPOINT'' = Some []
        \<or> env ''ACCESS_KEY_ID'' = None \<or> env ''ACCESS_KEY_ID'' = Some []
        \<or> env ''ACCESS_KEY_SECRET'' = None \<or> env ''ACCESS_KEY_SECRET'' = Some [])
   \<and> main boto3_client env =
     (if env ''ENDPOINT'' = None \<or> env ''ENDPOINT'' = Some []
         \<or> env ''ACCESS_KEY_ID'' = None \<or> env ''ACCESS_KEY_ID'' = Some []
         \<or> env ''ACCESS_KEY_SECRET'' = None \<or> env ''ACCESS_KEY_SECRET'' = Some []
      then (Aborted (ValueError ''Missing required configuration''), [])
      else (let a = \<lparr>service_name = ''s3'',
                       endpoint_url = env ''ENDPOINT'',
                       aws_access_key_id = env ''ACCESS_KEY_ID'',
                       aws_secret_access_key = env ''ACCESS_KEY_SECRET'',
                       client_region_name =
                         Some (case env ''REGION_NAME'' of None \<Rightarrow> ''us-east-1''
                               | Some r \<Rightarrow> r)\<rparr>
            in (case boto3_client a of Inl e \<Rightarrow> Aborted e | Inr cl \<Rightarrow> Serving cl, [a])))"
  by (cases "env ''ENDPOINT''"; cases "env ''ACCESS_KEY_ID''"; cases "env ''ACCESS_KEY_SECRET''";
      cases "env ''REGION_NAME''"; cases "boto3_client \<lparr>service_name = ''s3'',
                       endpoint_url = env ''ENDPOINT'',
                       aws_access_key_id = env ''ACCESS_KEY_ID'',
                       aws_secret_access_key = env ''ACCESS_KEY_SECRET'',
                       client_region_name =
                         Some (case env ''REGION_NAME'' of None \<Rightarrow> ''us-east-1''
                               | Some r \<Rightarrow> r)\<rparr>")
     (simp_all add: main_def init_client_def load_config_def getenv_def getenv_default_def Let_def)

text \<open>
  Start-up with a \<^verbatim>\<open>boto3.client\<close> that refuses the endpoint \<^verbatim>\<open>x\<close>: with that
  endpoint the one call raises and start-up stops; with another, and no
  \<^verbatim>\<open>REGION_NAME\<close>, the server loop is entered with the client of region \<^verbatim>\<open>us-east-1\<close>.
\<close>

theorem startup_configuration_witness:
  "main (\<lambda>a. if endpoint_url a = Some ''x'' then Inl (ValueError ''Invalid endpoint: x'')
              else Inr a)
        [''ENDPOINT'' \<mapsto> ''x'', ''ACCESS_KEY_ID'' \<mapsto> ''id'', ''ACCESS_KEY_SECRET'' \<mapsto> ''secret'']
     = (Aborted (ValueError ''Invalid endpoint: x''),
        [\<lparr>service_name = ''s3'', endpoint_url = Some ''x'', aws_access_key_id = Some ''id'',
          aws_secret_access_key = Some ''secret'', client_region_name = Some ''us-east-1''\<rparr>])
   \<and> main (\<lambda>a. if endpoint_url a = Some ''x'' then Inl (ValueError ''Invalid endpoint: x'')
                else Inr a)
        [''ENDPOINT'' \<mapsto> ''http://localhost:9000'', ''ACCESS_KEY_ID'' \<mapsto> ''id'',
         ''ACCESS_KEY_SECRET'' \<mapsto> ''secret'']
     = (Serving \<lparr>service_name = ''s3'', endpoint_url = Some ''http://localhost:9000'',
                  aws_access_key_id = Some ''id'', aws_secret_access_key = Some ''secret'',
                  client_region_name = Some ''us-east-1''\<rparr>,
        [\<lparr>service_name = ''s3'', endpoint_url = Some ''http://localhost:9000'',
          aws_access_key_id = Some ''id'', aws_secret_access_key = Some ''secret'',
          client_region_name = Some ''us-east-1''\<rparr>])
   \<and> main (\<lambda>a. if endpoint_url a = Some ''x'' then Inl (ValueError ''Invalid endpoint: x'')
                else Inr a)
        [''ENDPOINT'' \<mapsto> ''http://localhost:9000'', ''ACCESS_KEY_SECRET'' \<mapsto> ''secret'']
     = (Aborted (ValueError ''Missing required configuration''), [])"
  using startup_configuration
          [of "[''ENDPOINT'' \<mapsto> ''x'', ''ACCESS_KEY_ID'' \<mapsto> ''id'',
                ''ACCESS_KEY_SECRET'' \<mapsto> ''secret'']"
              "\<lambda>a. if endpoint_url a = Some ''x'' then Inl (ValueError ''Invalid endpoint: x'')
                   else Inr a"]
        startup_configuration
          [of "[''ENDPOINT'' \<mapsto> ''http://localhost:9000'', ''ACCESS_KEY_ID'' \<mapsto> ''id'',
                ''ACCESS_KEY_SECRET'' \<mapsto> ''secret'']"
              "\<lambda>a. if endpoint_url a = Some ''x'' then Inl (ValueError ''Invalid endpoint: x'')
                   else Inr a"]
        startup_configuration
          [of "[''ENDPOINT'' \<mapsto> ''http://localhost:9000'', ''ACCESS_KEY_SECRET'' \<mapsto> ''secret'']"
              "\<lambda>a. if endpoint_url a = Some ''x'' then Inl (ValueError ''Invalid endpoint: x'')
                   else Inr a"]
  by (simp add: Let_def)

text \<open>
  The claim as first stated fails on an environment where all three variables
  are set and \<^verbatim>\<open>ENDPOINT\<close> is the empty string: \<^verbatim>\<open>load_config\<close> raises all the same,
  and start-up stops, whatever \<^verbatim>\<open>boto3.client\<close> would have done.
\<close>

theorem empty_endpoint_counterexample:
  "[''ENDPOINT'' \<mapsto> [], ''ACCESS_KEY_ID'' \<mapsto> ''id'', ''ACCESS_KEY_SECRET'' \<mapsto> ''secret'']
      ''ENDPOINT'' = Some []
   \<and> [''ENDPOINT'' \<mapsto> [], ''ACCESS_KEY_ID'' \<mapsto> ''id'', ''ACCESS_KEY_SECRET'' \<mapsto> ''secret'']
      ''ACCESS_KEY_ID'' = Some ''id''
   \<and> [''ENDPOINT'' \<mapsto> [], ''ACCESS_KEY_ID'' \<mapsto> ''id'', ''ACCESS_KEY_SECRET'' \<mapsto> ''secret'']
      ''ACCESS_KEY_SECRET'' = Some ''secret''
   \<and> load_config
        [''ENDPOINT'' \<mapsto> [], ''ACCESS_KEY_ID'' \<mapsto> ''id'', ''ACCESS_KEY_SECRET'' \<mapsto> ''secret'']
      = Inl (ValueError ''Missing required configuration'')
   \<and> main (\<lambda>a. Inr a)
        [''ENDPOINT'' \<mapsto> [], ''ACCESS_KEY_ID'' \<mapsto> ''id'', ''ACCESS_KEY_SECRET'' \<mapsto> ''secret'']
      = (Aborted (ValueError ''Missing required configuration''), [])"
  by (simp add: main_def init_client_def load_config_def getenv_def getenv_default_def Let_def)

text \<open>
  C2. The handlers of \<^verbatim>\<open>list-buckets\<close>, \<^verbatim>\<open>create-bucket\<close> and \<^verbatim>\<open>delete-bucket\<close>
  catch \<^verbatim>\<open>RuntimeError\<close> where the other six catch \<^verbatim>\<open>ClientError\<close>.  A
  \<^verbatim>\<open>ClientError\<close> of the storage client leaves them as an exception, not as the
  text "Failed to ...".
\<close>

theorem bucket_handlers_let_ClientError_through:
  "fst (handle_call_tool (faulty_client (ClientError ''AccessDenied'')) ''list-buckets''
          (Some Map.empty) (start_world () no_files)) = Inl (ClientError ''AccessDenied'')
   \<and> fst (handle_call_tool (faulty_client (ClientError ''AccessDenied'')) ''create-bucket''
          (Some [''bucket_name'' \<mapsto> PStr ''b'']) (start_world () no_files))
       = Inl (ClientError ''AccessDenied'')
   \<and> fst (handle_call_tool (faulty_client (ClientError ''AccessDenied'')) ''delete-bucket''
          (Some [''bucket_name'' \<mapsto> PStr ''b'']) (start_world () no_files))
       = Inl (ClientError ''AccessDenied'')"
  by (simp add: dispatch_table ListBucketsHandler_handle_def CreateBucketHandler_handle_def
        DeleteBucketHandler_handle_def plumbing faulty_client_def start_world_def)

text \<open>
  C6. \<^verbatim>\<open>list_resources\<close> catches \<^verbatim>\<open>RuntimeError\<close> too: a \<^verbatim>\<open>ClientError\<close> of
  \<^verbatim>\<open>list_buckets\<close> reaches the caller instead of the empty list.
\<close>

theorem list_resources_lets_ClientError_through:
  "fst (list_resources (faulty_client (ClientError ''AccessDenied'')) (start_world () no_files))
     = Inl (ClientError ''AccessDenied'')"
  by (simp add: list_resources_def plumbing faulty_client_def start_world_def)

text \<open>The local file operations raise \<^verbatim>\<open>TypeError\<close> or \<^verbatim>\<open>OSError\<close>, never \<^verbatim>\<open>ClientError\<close>.\<close>

lemma py_open_rb_not_ClientError: "py_open_rb f p = Inl e \<Longrightarrow> \<not> is_ClientError e"
  by (auto simp: py_open_rb_def split: if_splits option.splits)

lemma py_open_wb_not_ClientError: "py_open_wb f p = Inl e \<Longrightarrow> \<not> is_ClientError e"
  by (auto simp: py_open_wb_def split: if_splits)

lemma py_write_not_ClientError: "py_write f p d = Inl e \<Longrightarrow> \<not> is_ClientError e"
  by (auto simp: py_write_def split: if_splits)

text \<open>
  What \<^verbatim>\<open>PutObjectHandler.handle\<close> and \<^verbatim>\<open>GetObjectHandler.handle\<close> do with a
  dictionary of arguments, in terms of the local file operations and the answer of
  the client.
\<close>

lemma put_object_outcome:
  "PutObjectHandler_handle c n (Some m) w =
     (case py_open_rb (fs w) (dict_get m ''path'') of
        Inl e \<Rightarrow> (Inl e, w)
      | Inr content \<Rightarrow>
          (case put_object c [(''Bucket'', dict_get m ''bucket_name''), (''Key'', dict_get m ''key'')]
                  content (backend w) of
             (r, b) \<Rightarrow>
               (case r of
                  Inl e \<Rightarrow>
                    (if is_ClientError e then Inr [TextContent ''text'' ''Failed to put object'']
                     else Inl e)
                | Inr u \<Rightarrow>
                    Inr [TextContent ''text''
                           (''Object '' @ py_str (dict_get m ''key'') @ '' saved successfully'')],
                w\<lparr>backend := b,
                   calls := calls w @
                     [S3Call ''put_object''
                        [(''Bucket'', dict_get m ''bucket_name''), (''Key'', dict_get m ''key'')]
                        (Some content)]\<rparr>)))"
  by (auto simp: PutObjectHandler_handle_def Let_def invoke_def then_do_def try_except_def
        dest: py_open_rb_not_ClientError split: prod.splits sum.splits)

lemma get_object_outcome:
  "GetObjectHandler_handle c n (Some m) w =
     (case get_object c (versioned_kwargs m) (backend w) of
        (r, b) \<Rightarrow>
          (let w1 = w\<lparr>backend := b,
                      calls := calls w @ [S3Call ''get_object'' (versioned_kwargs m) None]\<rparr>
           in case r of
                Inl e \<Rightarrow>
                  (if is_ClientError e then Inr [TextContent ''text'' ''Failed to get object'']
                   else Inl e, w1)
              | Inr response \<Rightarrow>
                  (case py_open_wb (fs w) (dict_get m ''path'') of
                     Inl e \<Rightarrow> (Inl e, w1)
                   | Inr f1 \<Rightarrow>
                       (case Body response of
                          None \<Rightarrow> (Inl (KeyError ''Body''), w1\<lparr>fs := f1\<rparr>)
                        | Some content \<Rightarrow>
                            (case py_write f1 (dict_get m ''path'') content of
                               Inl e \<Rightarrow> (Inl e, w1\<lparr>fs := f1\<rparr>)
                             | Inr f2 \<Rightarrow>
                                 (Inr [TextContent ''text''
                                         (''Object '' @ py_str (dict_get m ''key'')
                                          @ '' saved successfully'')],
                                  w1\<lparr>fs := f2\<rparr>))))))"
proof -
  have "GetObjectHandler_handle c n (Some m) w =
     try_except is_ClientError
       (then_do
          (invoke (S3Call ''get_object'' (versioned_kwargs m) None)
             (get_object c (versioned_kwargs m)) w)
          (\<lambda>response w1.
             (case py_open_wb (fs w1) (dict_get m ''path'') of
                Inl e \<Rightarrow> (Inl e, w1)
              | Inr f1 \<Rightarrow>
                  (case subscript (Body response) ''Body'' of
                     Inl e \<Rightarrow> (Inl e, w1\<lparr>fs := f1\<rparr>)
                   | Inr content \<Rightarrow>
                       (case py_write f1 (dict_get m ''path'') content of
                          Inl e \<Rightarrow> (Inl e, w1\<lparr>fs := f1\<rparr>)
                        | Inr f2 \<Rightarrow>
                            (Inr [TextContent ''text''
                               (''Object '' @ py_str (dict_get m ''key'') @ '' saved successfully'')],
                             w1\<lparr>fs := f2\<rparr>))))))
       [TextContent ''text'' ''Failed to get object'']"
    unfolding GetObjectHandler_handle_def versioned_kwargs_def Let_def by simp
  then show ?thesis
    by (auto simp: invoke_def then_do_def try_except_def subscript_def Let_def
          dest: py_open_wb_not_ClientError py_write_not_ClientError
          split: prod.splits sum.splits option.splits)
qed

lemmas kv_defs = kv_client_def kv_get_object_def kv_put_object_def kw_get_def kv_body_def

text \<open>
  C9, as amended.  A failure of the local file operation in \<^verbatim>\<open>put-object\<close> or
  \<^verbatim>\<open>get-object\<close> is not caught: \<^verbatim>\<open>put-object\<close> whose \<^verbatim>\<open>open\<close> fails raises that
  exception without calling the client, and \<^verbatim>\<open>get-object\<close> whose \<^verbatim>\<open>get_object\<close> call
  has returned raises the exception of the failed \<^verbatim>\<open>open\<close> or \<^verbatim>\<open>write\<close>.  The
  exception is never a \<^verbatim>\<open>ClientError\<close>, the only class that becomes the failure
  text.
\<close>

theorem local_file_failure_not_caught:
  "(py_open_rb (fs w) (dict_get m ''path'') = Inl e \<longrightarrow>
      handle_call_tool c ''put-object'' (Some m) w = (Inl e, w) \<and> \<not> is_ClientError e)
   \<and> (calls (snd (handle_call_tool c ''get-object'' (Some m) w))
          = calls w @ [S3Call ''get_object'' kw None]
        \<and> get_object c kw (backend w) = (Inr r, b)
        \<and> py_open_wb (fs w) (dict_get m ''path'') = Inl e \<longrightarrow>
      fst (handle_call_tool c ''get-object'' (Some m) w) = Inl e \<and> \<not> is_ClientError e)
   \<and> (calls (snd (handle_call_tool c ''get-object'' (Some m) w))
          = calls w @ [S3Call ''get_object'' kw None]
        \<and> get_object c kw (backend w) = (Inr r, b)
        \<and> py_open_wb (fs w) (dict_get m ''path'') = Inr f1
        \<and> Body r = Some content
        \<and> py_write f1 (dict_get m ''path'') content = Inl e \<longrightarrow>
      fst (handle_call_tool c ''get-object'' (Some m) w) = Inl e \<and> \<not> is_ClientError e)"
proof (intro conjI impI)
  assume "py_open_rb (fs w) (dict_get m ''path'') = Inl e"
  then show "handle_call_tool c ''put-object'' (Some m) w = (Inl e, w)" "\<not> is_ClientError e"
    by (auto simp: dispatch_table put_object_outcome dest: py_open_rb_not_ClientError)
next
  assume a: "calls (snd (handle_call_tool c ''get-object'' (Some m) w))
          = calls w @ [S3Call ''get_object'' kw None]
        \<and> get_object c kw (backend w) = (Inr r, b)
        \<and> py_open_wb (fs w) (dict_get m ''path'') = Inl e"
  then have kw: "kw = versioned_kwargs m"
    by (auto simp: dispatch_table get_object_outcome Let_def
          split: prod.splits sum.splits option.splits if_splits)
  with a show "fst (handle_call_tool c ''get-object'' (Some m) w) = Inl e"
    by (simp add: dispatch_table get_object_outcome)
  from a show "\<not> is_ClientError e" by (auto dest: py_open_wb_not_ClientError)
next
  assume a: "calls (snd (handle_call_tool c ''get-object'' (Some m) w))
          = calls w @ [S3Call ''get_object'' kw None]
        \<and> get_object c kw (backend w) = (Inr r, b)
        \<and> py_open_wb (fs w) (dict_get m ''path'') = Inr f1
        \<and> Body r = Some content
        \<and> py_write f1 (dict_get m ''path'') content = Inl e"
  then have kw: "kw = versioned_kwargs m"
    by (auto simp: dispatch_table get_object_outcome Let_def
          split: prod.splits sum.splits option.splits if_splits)
  with a show "fst (handle_call_tool c ''get-object'' (Some m) w) = Inl e"
    by (simp add: dispatch_table get_object_outcome)
  from a show "\<not> is_ClientError e" by (auto dest: py_write_not_ClientError)
qed

text \<open>
  A file that does not exist given to \<^verbatim>\<open>put-object\<close>, a path that cannot be opened
  and a write that fails in \<^verbatim>\<open>get-object\<close>.
\<close>

theorem local_file_failure_not_caught_witness:
  "py_open_rb no_files (PStr ''/tmp/missing'') = Inl OSError
   \<and> handle_call_tool kv_client ''put-object''
         (Some [''bucket_name'' \<mapsto> PStr ''b'', ''key'' \<mapsto> PStr ''k'', ''path'' \<mapsto> PStr ''/tmp/missing''])
         (start_world [(PStr ''b'', [])] no_files)
       = (Inl OSError, start_world [(PStr ''b'', [])] no_files)
   \<and> py_open_wb no_files (PStr ''/nodir/out'') = Inl OSError
   \<and> fst (handle_call_tool kv_client ''get-object''
         (Some [''bucket_name'' \<mapsto> PStr ''b'', ''key'' \<mapsto> PStr ''k'', ''path'' \<mapsto> PStr ''/nodir/out''])
         (start_world [(PStr ''b'', [(PStr ''k'', [1, 2, 3])])] no_files))
       = Inl OSError
   \<and> py_write (write_fails\<lparr>files := [PStr ''/tmp/out'' \<mapsto> []]\<rparr>) (PStr ''/tmp/out'') [1, 2, 3]
       = Inl OSError
   \<and> fst (handle_call_tool kv_client ''get-object''
         (Some [''bucket_name'' \<mapsto> PStr ''b'', ''key'' \<mapsto> PStr ''k'', ''path'' \<mapsto> PStr ''/tmp/out''])
         (start_world [(PStr ''b'', [(PStr ''k'', [1, 2, 3])])] write_fails))
       = Inl OSError"
  using local_file_failure_not_caught
          [where c = kv_client and e = OSError
             and m = "[''bucket_name'' \<mapsto> PStr ''b'', ''key'' \<mapsto> PStr ''k'',
                       ''path'' \<mapsto> PStr ''/tmp/missing'']"
             and w = "start_world [(PStr ''b'', [])] no_files"]
        local_file_failure_not_caught
          [where c = kv_client and e = OSError
             and m = "[''bucket_name'' \<mapsto> PStr ''b'', ''key'' \<mapsto> PStr ''k'',
                       ''path'' \<mapsto> PStr ''/nodir/out'']"
             and w = "start_world [(PStr ''b'', [(PStr ''k'', [1, 2, 3])])] no_files"
             and kw = "[(''Bucket'', PStr ''b''), (''Key'', PStr ''k'')]"
             and r = "\<lparr>Body = Some [1, 2, 3]\<rparr>"
             and b = "[(PStr ''b'', [(PStr ''k'', [1, 2, 3])])]"]
        local_file_failure_not_caught
          [where c = kv_client and e = OSError
             and m = "[''bucket_name'' \<mapsto> PStr ''b'', ''key'' \<mapsto> PStr ''k'',
                       ''path'' \<mapsto> PStr ''/tmp/out'']"
             and w = "start_world [(PStr ''b'', [(PStr ''k'', [1, 2, 3])])] write_fails"
             and kw = "[(''Bucket'', PStr ''b''), (''Key'', PStr ''k'')]"
             and r = "\<lparr>Body = Some [1, 2, 3]\<rparr>"
             and b = "[(PStr ''b'', [(PStr ''k'', [1, 2, 3])])]"
             and ?f1.0 = "write_fails\<lparr>files := [PStr ''/tmp/out'' \<mapsto> []]\<rparr>"
             and content = "[1, 2, 3]"]
  by (simp add: dispatch_table get_object_outcome put_object_outcome versioned_kwargs_def
        Let_def dict_get_def kv_defs start_world_def no_files_def write_fails_def
        py_open_rb_def py_open_wb_def py_write_def)

text \<open>
  The claim as first stated fails: \<^verbatim>\<open>put-object\<close> of a missing local file raises
  \<^verbatim>\<open>OSError\<close>, where a failure of the storage client gives "Failed to put object".
\<close>

theorem local_failure_counterexample:
  "py_open_rb no_files (PStr ''/tmp/missing'') = Inl OSError
   \<and> fst (handle_call_tool kv_client ''put-object''
         (Some [''bucket_name'' \<mapsto> PStr ''b'', ''key'' \<mapsto> PStr ''k'', ''path'' \<mapsto> PStr ''/tmp/missing''])
         (start_world [(PStr ''b'', [])] no_files))
       = Inl OSError
   \<and> fst (handle_call_tool (faulty_client (ClientError ''AccessDenied'')) ''put-object''
         (Some [''bucket_name'' \<mapsto> PStr ''b'', ''key'' \<mapsto> PStr ''k'', ''path'' \<mapsto> PStr ''/tmp/in''])
         (start_world () (no_files\<lparr>files := [PStr ''/tmp/in'' \<mapsto> [88, 89, 90]]\<rparr>)))
       = Inr [TextContent ''text'' ''Failed to put object'']"
  by (simp add: dispatch_table put_object_outcome dict_get_def faulty_client_def start_world_def
        no_files_def py_open_rb_def)

text \<open>
  \<^verbatim>\<open>put-object\<close> against the key-value store: with the local file there and the
  bucket in the store, the call succeeds and stores the content of the file; it
  succeeds only if the bucket is in the store.
\<close>

lemma kv_put_step:
  assumes "files (fs w) (PStr pin) = Some B" and "map_of (backend w) (PStr b) = Some objs"
  shows "handle_call_tool kv_client ''put-object''
           (Some [''bucket_name'' \<mapsto> PStr b, ''key'' \<mapsto> PStr k, ''path'' \<mapsto> PStr pin]) w
         = (Inr [TextContent ''text'' (''Object '' @ k @ '' saved successfully'')],
            w\<lparr>backend := AList.update (PStr b) (AList.update (PStr k) B objs) (backend w),
               calls := calls w @ [S3Call ''put_object'' [(''Bucket'', PStr b), (''Key'', PStr k)]
                                     (Some B)]\<rparr>)"
  using assms
  by (simp add: dispatch_table put_object_outcome dict_get_def py_open_rb_def kv_defs)

lemma kv_put_needs_bucket:
  assumes "files (fs w) (PStr pin) = Some B"
      and "handle_call_tool kv_client ''put-object''
             (Some [''bucket_name'' \<mapsto> PStr b, ''key'' \<mapsto> PStr k, ''path'' \<mapsto> PStr pin]) w
           = (Inr [TextContent ''text'' (''Object '' @ k @ '' saved successfully'')], w1)"
  shows "\<exists>objs. map_of (backend w) (PStr b) = Some objs"
  using assms
  by (cases "map_of (backend w) (PStr b)")
     (simp_all add: dispatch_table put_object_outcome dict_get_def py_open_rb_def kv_defs)

lemma kv_body_after_put:
  assumes "files (fs w) (PStr pin) = Some B" and "map_of (backend w) (PStr b) = Some objs"
  shows "kv_body (backend (snd (handle_call_tool kv_client ''put-object''
           (Some [''bucket_name'' \<mapsto> PStr b, ''key'' \<mapsto> PStr k, ''path'' \<mapsto> PStr pin]) w)))
           (PStr b) (PStr k) = Some B"
    and "fs (snd (handle_call_tool kv_client ''put-object''
           (Some [''bucket_name'' \<mapsto> PStr b, ''key'' \<mapsto> PStr k, ''path'' \<mapsto> PStr pin]) w)) = fs w"
  using assms by (simp_all add: kv_put_step kv_body_def update_conv')

lemma kv_body_put_object_times:
  assumes "files (fs w) (PStr pin) = Some B" and "kv_body (backend w) (PStr b) (PStr k) = Some B"
  shows "kv_body (backend (put_object_times n kv_client
           (Some [''bucket_name'' \<mapsto> PStr b, ''key'' \<mapsto> PStr k, ''path'' \<mapsto> PStr pin]) w))
           (PStr b) (PStr k) = Some B"
  using assms
proof (induction n arbitrary: w)
  case 0
  then show ?case by simp
next
  case (Suc n)
  from Suc.prems(2) obtain objs where objs: "map_of (backend w) (PStr b) = Some objs"
    by (auto simp: kv_body_def split: option.splits)
  let ?w' = "snd (handle_call_tool kv_client ''put-object''
           (Some [''bucket_name'' \<mapsto> PStr b, ''key'' \<mapsto> PStr k, ''path'' \<mapsto> PStr pin]) w)"
  have f: "files (fs ?w') (PStr pin) = Some B"
    by (simp only: kv_body_after_put(2) [OF Suc.prems(1) objs] Suc.prems(1))
  have bd: "kv_body (backend ?w') (PStr b) (PStr k) = Some B"
    by (rule kv_body_after_put(1) [OF Suc.prems(1) objs])
  show ?case
    by (simp only: put_object_times.simps Suc.IH [OF f bd])
qed

text \<open>
  C8. Over the key-value store: when \<^verbatim>\<open>put-object\<close> of a local file holding the bytes
  \<open>B\<close> to bucket \<open>b\<close> and key \<open>k\<close> succeeds, and the \<^verbatim>\<open>get-object\<close> of \<open>(b, k)\<close> to
  an output path that follows succeeds, the output path holds exactly \<open>B\<close>; and
  after any number \<open>n\<close> of further \<^verbatim>\<open>put-object\<close> calls with the same arguments the
  body stored under \<open>(b, k)\<close> is still \<open>B\<close>.
\<close>

theorem put_get_round_trip:
  assumes "files (fs w) (PStr pin) = Some B"
      and "handle_call_tool kv_client ''put-object''
             (Some [''bucket_name'' \<mapsto> PStr b, ''key'' \<mapsto> PStr k, ''path'' \<mapsto> PStr pin]) w
           = (Inr [TextContent ''text'' (''Object '' @ k @ '' saved successfully'')], w1)"
      and "handle_call_tool kv_client ''get-object''
             (Some [''bucket_name'' \<mapsto> PStr b, ''key'' \<mapsto> PStr k, ''path'' \<mapsto> PStr pout]) w1
           = (Inr [TextContent ''text'' (''Object '' @ k @ '' saved successfully'')], w2)"
  shows "files (fs w2) (PStr pout) = Some B
       \<and> kv_body (backend (put_object_times n kv_client
             (Some [''bucket_name'' \<mapsto> PStr b, ''key'' \<mapsto> PStr k, ''path'' \<mapsto> PStr pin]) w1))
             (PStr b) (PStr k) = Some B"
proof -
  from kv_put_needs_bucket [OF assms(1,2)]
  obtain objs where objs: "map_of (backend w) (PStr b) = Some objs" ..
  have w1: "w1 = snd (handle_call_tool kv_client ''put-object''
             (Some [''bucket_name'' \<mapsto> PStr b, ''key'' \<mapsto> PStr k, ''path'' \<mapsto> PStr pin]) w)"
    using assms(2) by simp
  have body1: "kv_body (backend w1) (PStr b) (PStr k) = Some B" and fs1: "fs w1 = fs w"
    unfolding w1 by (rule kv_body_after_put [OF assms(1) objs])+
  have "files (fs w2) (PStr pout) = Some B"
    using assms(3) body1
    by (auto simp: dispatch_table get_object_outcome versioned_kwargs_def Let_def dict_get_def
          kv_defs py_open_wb_def py_write_def
          split: option.splits if_splits)
  moreover have "kv_body (backend (put_object_times n kv_client
             (Some [''bucket_name'' \<mapsto> PStr b, ''key'' \<mapsto> PStr k, ''path'' \<mapsto> PStr pin]) w1))
             (PStr b) (PStr k) = Some B"
    using assms(1) body1 fs1 by (intro kv_body_put_object_times) simp_all
  ultimately show ?thesis by simp
qed

text \<open>
  The scenario of the specification: \<^verbatim>\<open>/tmp/in\<close> holds the bytes of \<^verbatim>\<open>XYZ\<close>, which
  reach \<^verbatim>\<open>/tmp/out\<close>, and three more uploads leave the object as it is.
\<close>

theorem put_get_round_trip_witness:
  "files (fs (start_world [(PStr ''b'', [])] (writable_files [PStr ''/tmp/in'' \<mapsto> [88, 89, 90]])
               :: kv_store world))
      (PStr ''/tmp/in'') = Some [88, 89, 90]
   \<and> fst (handle_call_tool kv_client ''put-object''
         (Some [''bucket_name'' \<mapsto> PStr ''b'', ''key'' \<mapsto> PStr ''k'', ''path'' \<mapsto> PStr ''/tmp/in''])
         (start_world [(PStr ''b'', [])] (writable_files [PStr ''/tmp/in'' \<mapsto> [88, 89, 90]])))
       = Inr [TextContent ''text'' ''Object k saved successfully'']
   \<and> fst (handle_call_tool kv_client ''get-object''
         (Some [''bucket_name'' \<mapsto> PStr ''b'', ''key'' \<mapsto> PStr ''k'', ''path'' \<mapsto> PStr ''/tmp/out''])
         (snd (handle_call_tool kv_client ''put-object''
            (Some [''bucket_name'' \<mapsto> PStr ''b'', ''key'' \<mapsto> PStr ''k'', ''path'' \<mapsto> PStr ''/tmp/in''])
            (start_world [(PStr ''b'', [])] (writable_files [PStr ''/tmp/in'' \<mapsto> [88, 89, 90]])))))
       = Inr [TextContent ''text'' ''Object k saved successfully'']
   \<and> files (fs (snd (handle_call_tool kv_client ''get-object''
         (Some [''bucket_name'' \<mapsto> PStr ''b'', ''key'' \<mapsto> PStr ''k'', ''path'' \<mapsto> PStr ''/tmp/out''])
         (snd (handle_call_tool kv_client ''put-object''
            (Some [''bucket_name'' \<mapsto> PStr ''b'', ''key'' \<mapsto> PStr ''k'', ''path'' \<mapsto> PStr ''/tmp/in''])
            (start_world [(PStr ''b'', [])] (writable_files [PStr ''/tmp/in'' \<mapsto> [88, 89, 90]])))))))
       (PStr ''/tmp/out'') = Some [88, 89, 90]
   \<and> kv_body (backend (put_object_times 3 kv_client
         (Some [''bucket_name'' \<mapsto> PStr ''b'', ''key'' \<mapsto> PStr ''k'', ''path'' \<mapsto> PStr ''/tmp/in''])
         (snd (handle_call_tool kv_client ''put-object''
            (Some [''bucket_name'' \<mapsto> PStr ''b'', ''key'' \<mapsto> PStr ''k'', ''path'' \<mapsto> PStr ''/tmp/in''])
            (start_world [(PStr ''b'', [])] (writable_files [PStr ''/tmp/in'' \<mapsto> [88, 89, 90]]))))))
       (PStr ''b'') (PStr ''k'') = Some [88, 89, 90]"
proof -
  let ?w = "start_world [(PStr ''b'', [])] (writable_files [PStr ''/tmp/in'' \<mapsto> [88, 89, 90]])
              :: kv_store world"
  let ?put = "Some [''bucket_name'' \<mapsto> PStr ''b'', ''key'' \<mapsto> PStr ''k'', ''path'' \<mapsto> PStr ''/tmp/in'']"
  let ?get = "Some [''bucket_name'' \<mapsto> PStr ''b'', ''key'' \<mapsto> PStr ''k'', ''path'' \<mapsto> PStr ''/tmp/out'']"
  let ?w1 = "snd (handle_call_tool kv_client ''put-object'' ?put ?w)"
  let ?w2 = "snd (handle_call_tool kv_client ''get-object'' ?get ?w1)"
  have infile: "files (fs ?w) (PStr ''/tmp/in'') = Some [88, 89, 90]"
    by (simp add: start_world_def writable_files_def)
  have bucket: "map_of (backend ?w) (PStr ''b'') = Some []"
    by (simp add: start_world_def)
  have put: "handle_call_tool kv_client ''put-object'' ?put ?w
               = (Inr [TextContent ''text'' (''Object '' @ ''k'' @ '' saved successfully'')], ?w1)"
    by (simp add: kv_put_step [OF infile bucket])
  have w1: "?w1 = ?w\<lparr>backend := AList.update (PStr ''b'') (AList.update (PStr ''k'') [88, 89, 90] [])
                                   (backend ?w),
                     calls := calls ?w @ [S3Call ''put_object''
                                [(''Bucket'', PStr ''b''), (''Key'', PStr ''k'')] (Some [88, 89, 90])]\<rparr>"
    by (simp add: kv_put_step [OF infile bucket])
  have get1: "fst (handle_call_tool kv_client ''get-object'' ?get ?w1)
               = Inr [TextContent ''text'' (''Object '' @ ''k'' @ '' saved successfully'')]"
    unfolding w1
    by (simp add: dispatch_table get_object_outcome
          versioned_kwargs_def Let_def dict_get_def kv_defs start_world_def writable_files_def
          py_open_wb_def py_write_def)
  have get: "handle_call_tool kv_client ''get-object'' ?get ?w1
               = (Inr [TextContent ''text'' (''Object '' @ ''k'' @ '' saved successfully'')], ?w2)"
    using get1 by (simp add: prod_eq_iff)
  have put1: "fst (handle_call_tool kv_client ''put-object'' ?put ?w)
               = Inr [TextContent ''text'' (''Object '' @ ''k'' @ '' saved successfully'')]"
    by (simp add: kv_put_step [OF infile bucket])
  from put1 get1 infile put_get_round_trip [OF infile put get, of 3]
  show ?thesis by simp
qed

text \<open>
  The one client call of each tool with arguments, for any dictionary of
  arguments: what is read with \<^verbatim>\<open>args.get\<close> goes into the call as it is.
\<close>

lemma versioned_kwargs_lookup:
  "map_of (versioned_kwargs m) ''Bucket'' = Some (dict_get m ''bucket_name'')"
  "map_of (versioned_kwargs m) ''Key'' = Some (dict_get m ''key'')"
  by (simp_all add: versioned_kwargs_def Let_def)

lemma bucket_tools_calls:
  "calls (snd (handle_call_tool c ''exists-bucket'' (Some m) w))
     = calls w @ [S3Call ''head_bucket'' [(''Bucket'', dict_get m ''bucket_name'')] None]"
  "calls (snd (handle_call_tool c ''create-bucket'' (Some m) w))
     = calls w @ [S3Call ''create_bucket'' [(''Bucket'', dict_get m ''bucket_name'')] None]"
  "calls (snd (handle_call_tool c ''delete-bucket'' (Some m) w))
     = calls w @ [S3Call ''delete_bucket'' [(''Bucket'', dict_get m ''bucket_name'')] None]"
  by (simp_all add: dispatch_table ExistsBucketHandler_handle_def CreateBucketHandler_handle_def
        DeleteBucketHandler_handle_def invoke_def then_do_def try_except_def Let_def
        split: prod.splits sum.splits)

lemma list_objects_calls:
  "calls (snd (handle_call_tool c ''list-objects'' (Some m) w))
     = calls w @ [S3Call ''list_objects_v2'' (list_objects_kwargs m) None]"
  by (simp add: dispatch_table list_objects_outcome split: prod.splits)

lemma get_object_calls:
  "calls (snd (handle_call_tool c ''get-object'' (Some m) w))
     = calls w @ [S3Call ''get_object'' (versioned_kwargs m) None]"
  by (simp add: dispatch_table get_object_outcome Let_def
        split: prod.splits sum.splits option.splits)

lemma put_object_calls:
  assumes "py_open_rb (fs w) (dict_get m ''path'') = Inr content"
  shows "calls (snd (handle_call_tool c ''put-object'' (Some m) w))
     = calls w @ [S3Call ''put_object''
                    [(''Bucket'', dict_get m ''bucket_name''), (''Key'', dict_get m ''key'')]
                    (Some content)]"
  using assms by (simp add: dispatch_table put_object_outcome split: prod.splits)

lemma delete_object_calls:
  "calls (snd (handle_call_tool c ''delete-object'' (Some m) w))
     = calls w @ [S3Call ''delete_object'' (versioned_kwargs m) None]"
proof -
  have "DeleteObjectHandler_handle c ''delete-object'' (Some m) w =
     try_except is_ClientError
       (then_do
          (invoke (S3Call ''delete_object'' (versioned_kwargs m) None)
             (delete_object c (versioned_kwargs m)) w)
          (\<lambda>r w1. (Inr [TextContent ''text''
                       (''Object '' @ py_str (dict_get m ''key'') @ '' deleted successfully'')], w1)))
       [TextContent ''text'' ''Failed to delete object'']"
    unfolding DeleteObjectHandler_handle_def versioned_kwargs_def Let_def by simp
  then show ?thesis
    unfolding dispatch_table
    by (auto simp: invoke_def then_do_def try_except_def split: prod.splits sum.splits)
qed

lemma get_object_metadata_calls:
  "calls (snd (handle_call_tool c ''get-object-metadata'' (Some m) w))
     = calls w @ [S3Call ''head_object'' (versioned_kwargs m) None]"
proof -
  have "GetObjectMetadataHandler_handle c ''get-object-metadata'' (Some m) w =
     try_except is_ClientError
       (then_do
          (invoke (S3Call ''head_object'' (versioned_kwargs m) None)
             (head_object c (versioned_kwargs m)) w)
          (\<lambda>obj w1. (Inr [TextContent ''text''
                         (''Metadata[content_type='' @ field_str (ContentType obj) []
                          @ '', content_length='' @ field_str (ContentLength obj) []
                          @ '',last_modified='' @ field_str (LastModified obj) []
                          @ '']'')], w1)))
       [TextContent ''text'' ''Failed to get object metadata'']"
    unfolding GetObjectMetadataHandler_handle_def versioned_kwargs_def Let_def by simp
  then show ?thesis
    unfolding dispatch_table
    by (auto simp: invoke_def then_do_def try_except_def split: prod.splits sum.splits)
qed

text \<open>The names and the required arguments of the catalogue.\<close>

lemma catalogue_names_required:
  "map (\<lambda>t. (tool_name t, required t)) handle_list_tools =
     [(''list-buckets'', []),
      (''exists-bucket'', [''bucket_name'']),
      (''create-bucket'', [''bucket_name'']),
      (''delete-bucket'', [''bucket_name'']),
      (''list-objects'', [''bucket_name'']),
      (''get-object'', [''bucket_name'', ''key'', ''path'']),
      (''put-object'', [''bucket_name'', ''key'', ''path'']),
      (''delete-object'', [''bucket_name'', ''key'']),
      (''get-object-metadata'', [''bucket_name'', ''key''])]"
  unfolding handle_list_tools_def list.map tool_name.simps required.simps by (rule refl)

lemma call_shapeI:
  assumes "calls w' = calls w @ [S3Call meth kw body]" and "P kw"
  shows "\<exists>meth kw body. calls w' = calls w @ [S3Call meth kw body] \<and> P kw"
  using assms by blast

text \<open>
  C3, as amended.  No handler checks that a required argument is there.  For a
  tool of the catalogue and one of its required arguments that the argument
  mapping omits, the handler still makes its client call, with \<^verbatim>\<open>Bucket\<close> set to
  \<^verbatim>\<open>None\<close> when \<^verbatim>\<open>bucket_name\<close> is the one omitted and \<^verbatim>\<open>Key\<close> set to \<^verbatim>\<open>None\<close> when it
  is \<^verbatim>\<open>key\<close>.  For \<^verbatim>\<open>put-object\<close>, which opens the local file first, this is so when
  the file can be opened.
\<close>

theorem required_arguments_not_validated:
  assumes "t \<in> set handle_list_tools" and "k \<in> set (required t)" and "m k = None"
      and "tool_name t = ''put-object'' \<longrightarrow>
             (\<exists>content. py_open_rb (fs w) (dict_get m ''path'') = Inr content)"
  shows "\<exists>meth kw body.
           calls (snd (handle_call_tool c (tool_name t) (Some m) w))
             = calls w @ [S3Call meth kw body]
           \<and> ((k = ''bucket_name'' \<longrightarrow> map_of kw ''Bucket'' = Some PNone)
              \<and> (k = ''key'' \<longrightarrow> map_of kw ''Key'' = Some PNone))"
proof -
  from assms(1)
  have "(\<lambda>t. (tool_name t, required t)) t \<in> (\<lambda>t. (tool_name t, required t)) ` set handle_list_tools"
    by (rule imageI)
  then have "(tool_name t, required t) \<in> set (map (\<lambda>t. (tool_name t, required t)) handle_list_tools)"
    by (simp only: set_map)
  then have "(tool_name t, required t) \<in>
     set [(''list-buckets'', []),
      (''exists-bucket'', [''bucket_name'']),
      (''create-bucket'', [''bucket_name'']),
      (''delete-bucket'', [''bucket_name'']),
      (''list-objects'', [''bucket_name'']),
      (''get-object'', [''bucket_name'', ''key'', ''path'']),
      (''put-object'', [''bucket_name'', ''key'', ''path'']),
      (''delete-object'', [''bucket_name'', ''key'']),
      (''get-object-metadata'', [''bucket_name'', ''key''])]"
    by (simp only: catalogue_names_required)
  then consider
      (list_buckets) "tool_name t = ''list-buckets''" "required t = []"
    | (exists_bucket) "tool_name t = ''exists-bucket''" "required t = [''bucket_name'']"
    | (create_bucket) "tool_name t = ''create-bucket''" "required t = [''bucket_name'']"
    | (delete_bucket) "tool_name t = ''delete-bucket''" "required t = [''bucket_name'']"
    | (list_objects) "tool_name t = ''list-objects''" "required t = [''bucket_name'']"
    | (get_object) "tool_name t = ''get-object''" "required t = [''bucket_name'', ''key'', ''path'']"
    | (put_object) "tool_name t = ''put-object''" "required t = [''bucket_name'', ''key'', ''path'']"
    | (delete_object) "tool_name t = ''delete-object''" "required t = [''bucket_name'', ''key'']"
    | (get_object_metadata) "tool_name t = ''get-object-metadata''"
        "required t = [''bucket_name'', ''key'']"
    unfolding list.set insert_iff empty_iff prod.inject by blast
  then show ?thesis
  proof cases
    case list_buckets
    with assms(2) show ?thesis by simp
  next
    case exists_bucket
    with assms(2) have k: "k = ''bucket_name''" by simp
    with assms(3) have "dict_get m ''bucket_name'' = PNone" by (simp add: dict_get_def)
    with k show ?thesis
      unfolding exists_bucket(1) by (intro call_shapeI [OF bucket_tools_calls(1)]) simp
  next
    case create_bucket
    with assms(2) have k: "k = ''bucket_name''" by simp
    with assms(3) have "dict_get m ''bucket_name'' = PNone" by (simp add: dict_get_def)
    with k show ?thesis
      unfolding create_bucket(1) by (intro call_shapeI [OF bucket_tools_calls(2)]) simp
  next
    case delete_bucket
    with assms(2) have k: "k = ''bucket_name''" by simp
    with assms(3) have "dict_get m ''bucket_name'' = PNone" by (simp add: dict_get_def)
    with k show ?thesis
      unfolding delete_bucket(1) by (intro call_shapeI [OF bucket_tools_calls(3)]) simp
  next
    case list_objects
    with assms(2) have k: "k = ''bucket_name''" by simp
    with assms(3) have "dict_get m ''bucket_name'' = PNone" by (simp add: dict_get_def)
    with k show ?thesis
      unfolding list_objects(1)
      by (intro call_shapeI [OF list_objects_calls]) (simp add: list_objects_kwargs_lookup)
  next
    case get_object
    from assms(3)
    have "(k = ''bucket_name'' \<longrightarrow> dict_get m ''bucket_name'' = PNone)
          \<and> (k = ''key'' \<longrightarrow> dict_get m ''key'' = PNone)"
      by (auto simp: dict_get_def)
    then show ?thesis
      unfolding get_object(1)
      by (intro call_shapeI [OF get_object_calls]) (simp add: versioned_kwargs_lookup)
  next
    case put_object
    with assms(4) obtain content where
      content: "py_open_rb (fs w) (dict_get m ''path'') = Inr content" by (elim impE exE) simp
    from assms(3)
    have "(k = ''bucket_name'' \<longrightarrow> dict_get m ''bucket_name'' = PNone)
          \<and> (k = ''key'' \<longrightarrow> dict_get m ''key'' = PNone)"
      by (auto simp: dict_get_def)
    then show ?thesis
      unfolding put_object(1)
      by (intro call_shapeI [OF put_object_calls [OF content]]) simp
  next
    case delete_object
    from assms(3)
    have "(k = ''bucket_name'' \<longrightarrow> dict_get m ''bucket_name'' = PNone)
          \<and> (k = ''key'' \<longrightarrow> dict_get m ''key'' = PNone)"
      by (auto simp: dict_get_def)
    then show ?thesis
      unfolding delete_object(1)
      by (intro call_shapeI [OF delete_object_calls]) (simp add: versioned_kwargs_lookup)
  next
    case get_object_metadata
    from assms(3)
    have "(k = ''bucket_name'' \<longrightarrow> dict_get m ''bucket_name'' = PNone)
          \<and> (k = ''key'' \<longrightarrow> dict_get m ''key'' = PNone)"
      by (auto simp: dict_get_def)
    then show ?thesis
      unfolding get_object_metadata(1)
      by (intro call_shapeI [OF get_object_metadata_calls]) (simp add: versioned_kwargs_lookup)
  qed
qed

text \<open>
  \<^verbatim>\<open>exists-bucket\<close> without \<^verbatim>\<open>bucket_name\<close>, and \<^verbatim>\<open>put-object\<close> of a file that is
  there without \<^verbatim>\<open>key\<close>.
\<close>

theorem required_arguments_not_validated_witness:
  "Tool ''exists-bucket'' ''Check if a bucket exists''
        (InputSchema [(''bucket_name'', ''string'', ''The name of the bucket to check'')]
           (Some [''bucket_name''])) \<in> set handle_list_tools
   \<and> ''bucket_name'' \<in> set (required (Tool ''exists-bucket'' ''Check if a bucket exists''
        (InputSchema [(''bucket_name'', ''string'', ''The name of the bucket to check'')]
           (Some [''bucket_name'']))))
   \<and> (Map.empty :: pydict) ''bucket_name'' = None
   \<and> ''exists-bucket'' \<noteq> ''put-object''
   \<and> calls (snd (handle_call_tool kv_client ''exists-bucket'' (Some Map.empty)
                   (start_world [] no_files)))
       = [S3Call ''head_bucket'' [(''Bucket'', PNone)] None]
   \<and> Tool ''put-object'' ''Put an object into a bucket''
        (InputSchema
           [(''bucket_name'', ''string'', ''The name of the bucket to put the object into''),
            (''key'', ''string'', ''The key of the object to put''),
            (''path'', ''string'', ''The path to the object to put'')]
           (Some [''bucket_name'', ''key'', ''path''])) \<in> set handle_list_tools
   \<and> ''key'' \<in> set (required (Tool ''put-object'' ''Put an object into a bucket''
        (InputSchema
           [(''bucket_name'', ''string'', ''The name of the bucket to put the object into''),
            (''key'', ''string'', ''The key of the object to put''),
            (''path'', ''string'', ''The path to the object to put'')]
           (Some [''bucket_name'', ''key'', ''path'']))))
   \<and> [''bucket_name'' \<mapsto> PStr ''b'', ''path'' \<mapsto> PStr ''/tmp/in''] ''key'' = None
   \<and> py_open_rb (writable_files [PStr ''/tmp/in'' \<mapsto> [88, 89, 90]]) (PStr ''/tmp/in'')
       = Inr [88, 89, 90]
   \<and> calls (snd (handle_call_tool kv_client ''put-object''
                   (Some [''bucket_name'' \<mapsto> PStr ''b'', ''path'' \<mapsto> PStr ''/tmp/in''])
                   (start_world [(PStr ''b'', [])]
                      (writable_files [PStr ''/tmp/in'' \<mapsto> [88, 89, 90]]))))
       = [S3Call ''put_object'' [(''Bucket'', PStr ''b''), (''Key'', PNone)] (Some [88, 89, 90])]"
  using required_arguments_not_validated
          [where t = "Tool ''exists-bucket'' ''Check if a bucket exists''
                        (InputSchema [(''bucket_name'', ''string'', ''The name of the bucket to check'')]
                           (Some [''bucket_name'']))"
             and k = "''bucket_name''" and m = Map.empty and c = kv_client
             and w = "start_world [] no_files"]
        required_arguments_not_validated
          [where t = "Tool ''put-object'' ''Put an object into a bucket''
                        (InputSchema
                           [(''bucket_name'', ''string'',
                             ''The name of the bucket to put the object into''),
                            (''key'', ''string'', ''The key of the object to put''),
                            (''path'', ''string'', ''The path to the object to put'')]
                           (Some [''bucket_name'', ''key'', ''path'']))"
             and k = "''key''"
             and m = "[''bucket_name'' \<mapsto> PStr ''b'', ''path'' \<mapsto> PStr ''/tmp/in'']"
             and c = kv_client
             and w = "start_world [(PStr ''b'', [])]
                        (writable_files [PStr ''/tmp/in'' \<mapsto> [88, 89, 90]])"]
  by (simp add: handle_list_tools_def bucket_tools_calls put_object_calls dict_get_def
        start_world_def writable_files_def py_open_rb_def)

text \<open>
  The claim as first stated fails on both of its examples: \<^verbatim>\<open>exists-bucket\<close> without
  \<^verbatim>\<open>bucket_name\<close> calls \<^verbatim>\<open>head_bucket(Bucket=None)\<close> and answers as for a bucket
  that is not there; \<^verbatim>\<open>get-object\<close> without \<^verbatim>\<open>path\<close> calls \<^verbatim>\<open>get_object\<close> and only
  then fails, on \<^verbatim>\<open>open(None, 'wb')\<close>.
\<close>

theorem missing_argument_counterexample:
  "Tool ''exists-bucket'' ''Check if a bucket exists''
        (InputSchema [(''bucket_name'', ''string'', ''The name of the bucket to check'')]
           (Some [''bucket_name''])) \<in> set handle_list_tools
   \<and> ''bucket_name'' \<in> set (required (Tool ''exists-bucket'' ''Check if a bucket exists''
        (InputSchema [(''bucket_name'', ''string'', ''The name of the bucket to check'')]
           (Some [''bucket_name'']))))
   \<and> (Map.empty :: pydict) ''bucket_name'' = None
   \<and> handle_call_tool kv_client ''exists-bucket'' (Some Map.empty) (start_world [] no_files)
       = (Inr [TextContent ''text'' ''Bucket None not exists''],
          \<lparr>backend = [], fs = no_files,
           calls = [S3Call ''head_bucket'' [(''Bucket'', PNone)] None]\<rparr>)
   \<and> [''bucket_name'' \<mapsto> PStr ''b'', ''key'' \<mapsto> PStr ''k''] ''path'' = None
   \<and> handle_call_tool kv_client ''get-object''
         (Some [''bucket_name'' \<mapsto> PStr ''b'', ''key'' \<mapsto> PStr ''k''])
         (start_world [(PStr ''b'', [(PStr ''k'', [88, 89, 90])])] no_files)
       = (Inl TypeError,
          \<lparr>backend = [(PStr ''b'', [(PStr ''k'', [88, 89, 90])])], fs = no_files,
           calls = [S3Call ''get_object'' [(''Bucket'', PStr ''b''), (''Key'', PStr ''k'')] None]\<rparr>)"
  by (simp add: handle_list_tools_def dispatch_table ExistsBucketHandler_handle_def plumbing
        get_object_outcome versioned_kwargs_def Let_def kv_client_def kv_head_bucket_def
        kv_get_object_def kw_get_def start_world_def py_open_wb_def)

end
